theory Spec2Isabelle
  imports Complex_Main "HOL-Library.Product_Lexorder" "HOL-Library.Option_ord" "HOL-Library.Multiset"
begin

section \<open>Data model\<close>

text \<open>
  A calendar date is the triple (year, month, day); the order on triples is the
  lexicographic one, which is how \<^verbatim>\<open>datetime.date\<close> values compare.
  A row's \<^verbatim>\<open>timestamp\<close> is a parsed date-time: \<^verbatim>\<open>.dt.date\<close> reads
  \<open>ts_date\<close> and \<^verbatim>\<open>.dt.hour\<close> reads \<open>ts_hour\<close>.
\<close>

type_synonym date = "nat \<times> nat \<times> nat"

record datetime =
  ts_date :: date
  ts_hour :: nat
  ts_minute :: nat
  ts_second :: nat

text \<open>
  One row of the data frame. The ten schema columns are always present. The columns
  \<^verbatim>\<open>date\<close> and \<^verbatim>\<open>hour\<close> are the ones the main callback assigns
  (\<^verbatim>\<open>filtered_df['date'] = ...\<close>, \<^verbatim>\<open>filtered_df['hour'] = ...\<close>); \<open>None\<close>
  stands for a frame that does not have the column.
\<close>

record row =
  timestamp :: datetime
  continent :: string
  country :: string
  salesperson_id :: string
  product_type :: string
  request_type :: string
  job_type :: string
  revenue :: real
  purchase_flag :: real
  affiliate_code :: string
  date :: "date option"
  hour :: "nat option"

text \<open>
  \<^verbatim>\<open>pd.DataFrame()\<close> is a frame with no columns at all: reading a column of it
  raises \<^verbatim>\<open>KeyError\<close>, and its \<^verbatim>\<open>.empty\<close> is true.
\<close>

datatype frame = NoColumns | Table "row list"

fun rows_of :: "frame \<Rightarrow> row list" where
  "rows_of NoColumns = []"
| "rows_of (Table t) = t"

definition frame_empty :: "frame \<Rightarrow> bool" where
  "frame_empty f = (rows_of f = [])"

text \<open>The exceptions the callbacks can meet, named by what raises them.\<close>

datatype exn =
    KeyError string
  | ColumnExists string
  | DateParseError string
  | NoneHasNoDate
  | InvalidScope string

text \<open>
  Library functions the callbacks call, taken as parameters: \<^verbatim>\<open>pd.to_datetime\<close> on a
  string (\<open>None\<close> when it raises), \<^verbatim>\<open>str.lower\<close>, whether plotly accepts a
  string as the \<^verbatim>\<open>scope\<close> of a choropleth (it raises \<^verbatim>\<open>ValueError\<close> otherwise), and
  the rounding of a float to two decimals that \<^verbatim>\<open>DataFrame.round(2)\<close> applies to a value
  that is not NaN. The last one works on the double: it is not the rounding of the
  decimal number the double stands for (the mean 0.575 is shown as 0.57), so nothing
  is assumed of it here.
\<close>

record externals =
  to_datetime :: "string \<Rightarrow> date option"
  str_lower :: "string \<Rightarrow> string"
  geo_scope_ok :: "string \<Rightarrow> bool"
  np_round2 :: "real \<Rightarrow> real"

text \<open>
  A date as the callback receives it from the date picker: \<^verbatim>\<open>None\<close>, a string, or
  (after a reset, and in the values the callback returns) a \<^verbatim>\<open>datetime.date\<close>.
\<close>

datatype date_input = NoDate | DateStr string | DateObj date

section \<open>Module-level values\<close>

text \<open>
  \<^verbatim>\<open>min_date = df['timestamp'].min().date() if not df.empty else datetime(2024, 1, 1).date()\<close>
  and likewise \<^verbatim>\<open>max_date\<close>.
\<close>

definition min_date :: "row list \<Rightarrow> date" where
  "min_date df = (if df \<noteq> [] then Min (set (map (\<lambda>r. ts_date (timestamp r)) df)) else (2024, 1, 1))"

definition max_date :: "row list \<Rightarrow> date" where
  "max_date df = (if df \<noteq> [] then Max (set (map (\<lambda>r. ts_date (timestamp r)) df)) else (2025, 5, 31))"

datatype kpi_name =
  Revenue | ConversionRate | DemoToPurchase | JobsPlaced | AiAssistRequests | PromoRequests

fun TARGETS :: "kpi_name \<Rightarrow> real" where
  "TARGETS Revenue = 500000"
| "TARGETS ConversionRate = 20"
| "TARGETS DemoToPurchase = 30"
| "TARGETS JobsPlaced = 50"
| "TARGETS AiAssistRequests = 100"
| "TARGETS PromoRequests = 50"

section \<open>Filters of the main callback\<close>

text \<open>Python truthiness of the filter values: \<^verbatim>\<open>None\<close>, \<^verbatim>\<open>''\<close> and \<^verbatim>\<open>[]\<close> are false.\<close>

definition truthy_str :: "string option \<Rightarrow> bool" where
  "truthy_str v = (case v of None \<Rightarrow> False | Some s \<Rightarrow> s \<noteq> [])"

definition truthy_list :: "string list option \<Rightarrow> bool" where
  "truthy_list v = (case v of None \<Rightarrow> False | Some xs \<Rightarrow> xs \<noteq> [])"

fun truthy_date :: "date_input \<Rightarrow> bool" where
  "truthy_date NoDate = False"
| "truthy_date (DateStr s) = (s \<noteq> [])"
| "truthy_date (DateObj d) = True"

text \<open>\<^verbatim>\<open>pd.to_datetime(v).date()\<close>; \<open>None\<close> when it raises.\<close>

fun parse_date :: "externals \<Rightarrow> date_input \<Rightarrow> date option" where
  "parse_date E NoDate = None"
| "parse_date E (DateStr s) = to_datetime E s"
| "parse_date E (DateObj d) = Some d"

text \<open>The row predicates of the four filters, and the rows each filter keeps.\<close>

definition continent_pred :: "string option \<Rightarrow> row \<Rightarrow> bool" where
  "continent_pred c r = (Some (continent r) = c)"

definition country_pred :: "string list option \<Rightarrow> row \<Rightarrow> bool" where
  "country_pred cs r = (case cs of None \<Rightarrow> False | Some xs \<Rightarrow> country r \<in> set xs)"

definition product_pred :: "string list option \<Rightarrow> row \<Rightarrow> bool" where
  "product_pred ps r = (case ps of None \<Rightarrow> False | Some xs \<Rightarrow> product_type r \<in> set xs)"

definition date_pred :: "date \<Rightarrow> date \<Rightarrow> row \<Rightarrow> bool" where
  "date_pred sd ed r = (ts_date (timestamp r) \<ge> sd \<and> ts_date (timestamp r) \<le> ed)"

text \<open>
  \<^verbatim>\<open>filtered_df[mask]\<close> where the mask reads column \<open>col\<close>: \<^verbatim>\<open>KeyError\<close> on a
  frame without columns, the rows satisfying the mask otherwise.
\<close>

fun select_rows :: "string \<Rightarrow> (row \<Rightarrow> bool) \<Rightarrow> frame \<Rightarrow> exn + frame" where
  "select_rows col P NoColumns = Inl (KeyError col)"
| "select_rows col P (Table t) = Inr (Table (filter P t))"

definition continent_filter :: "string option \<Rightarrow> frame \<Rightarrow> exn + frame" where
  "continent_filter c f =
     (if truthy_str c then select_rows ''continent'' (continent_pred c) f else Inr f)"

definition country_filter :: "string list option \<Rightarrow> frame \<Rightarrow> exn + frame" where
  "country_filter cs f =
     (if truthy_list cs then select_rows ''country'' (country_pred cs) f else Inr f)"

definition product_filter :: "string list option \<Rightarrow> frame \<Rightarrow> exn + frame" where
  "product_filter ps f =
     (if truthy_list ps then select_rows ''product_type'' (product_pred ps) f else Inr f)"

text \<open>
  The date block (inner \<^verbatim>\<open>try\<close>): skipped unless both dates are truthy; any
  exception in it (a date that does not parse, or the \<^verbatim>\<open>KeyError\<close> of a frame
  without columns) ends the cycle with the "Invalid Date Range" bundle, here \<open>None\<close>.
  On success the two variables are rebound to the parsed dates.
\<close>

definition date_filter ::
  "externals \<Rightarrow> date_input \<Rightarrow> date_input \<Rightarrow> frame \<Rightarrow> (frame \<times> date_input \<times> date_input) option" where
  "date_filter E start_date end_date f =
     (if truthy_date start_date \<and> truthy_date end_date then
        (case parse_date E start_date of
           None \<Rightarrow> None
         | Some sd \<Rightarrow>
             (case parse_date E end_date of
                None \<Rightarrow> None
              | Some ed \<Rightarrow>
                  (case select_rows ''timestamp'' (date_pred sd ed) f of
                     Inl e \<Rightarrow> None
                   | Inr f' \<Rightarrow> Some (f', DateObj sd, DateObj ed))))
      else Some (f, start_date, end_date))"

text \<open>
  How the filter block of a cycle ends: the inner handler ran (\<open>InvalidDateRange\<close>),
  an exception reached the outer handler (\<open>Raised\<close>), the frame is empty after the
  filters (\<open>EmptyResult\<close>), or a non-empty table goes on to the aggregations together
  with the rebound date variables.
\<close>

datatype filter_result =
    InvalidDateRange
  | Raised exn
  | EmptyResult
  | Filtered "row list" date_input date_input

definition apply_filters ::
  "externals \<Rightarrow> row list \<Rightarrow> string option \<Rightarrow> string list option \<Rightarrow> string list option \<Rightarrow>
   date_input \<Rightarrow> date_input \<Rightarrow> filter_result" where
  "apply_filters E df cont countries products start_date end_date =
     (let filtered_df = (if df \<noteq> [] then Table df else NoColumns) in
      case continent_filter cont filtered_df of
        Inl e \<Rightarrow> Raised e
      | Inr f1 \<Rightarrow>
          (case country_filter countries f1 of
             Inl e \<Rightarrow> Raised e
           | Inr f2 \<Rightarrow>
               (case product_filter products f2 of
                  Inl e \<Rightarrow> Raised e
                | Inr f3 \<Rightarrow>
                    (case date_filter E start_date end_date f3 of
                       None \<Rightarrow> InvalidDateRange
                     | Some (f4, sd, ed) \<Rightarrow>
                         if frame_empty f4 then EmptyResult
                         else Filtered (rows_of f4) sd ed))))"

text \<open>
  The four filters as steps on a table that has the columns, for stating that their
  order does not matter: \<open>dr\<close> is the parsed date range, \<open>None\<close> when the date block
  is skipped.
\<close>

datatype filter_kind = ByContinent | ByCountry | ByProduct | ByDate

fun filter_step ::
  "string option \<Rightarrow> string list option \<Rightarrow> string list option \<Rightarrow> (date \<times> date) option \<Rightarrow>
   filter_kind \<Rightarrow> row list \<Rightarrow> row list" where
  "filter_step c cs ps dr ByContinent t = (if truthy_str c then filter (continent_pred c) t else t)"
| "filter_step c cs ps dr ByCountry t = (if truthy_list cs then filter (country_pred cs) t else t)"
| "filter_step c cs ps dr ByProduct t = (if truthy_list ps then filter (product_pred ps) t else t)"
| "filter_step c cs ps dr ByDate t =
     (case dr of None \<Rightarrow> t | Some (sd, ed) \<Rightarrow> filter (date_pred sd ed) t)"

definition parsed_range :: "externals \<Rightarrow> date_input \<Rightarrow> date_input \<Rightarrow> (date \<times> date) option option" where
  "parsed_range E start_date end_date =
     (if truthy_date start_date \<and> truthy_date end_date then
        (case (parse_date E start_date, parse_date E end_date) of
           (Some sd, Some ed) \<Rightarrow> Some (Some (sd, ed))
         | _ \<Rightarrow> None)
      else Some None)"

section \<open>KPIs and metric cards\<close>

record kpis =
  total_revenue :: real
  total_interactions :: nat
  purchases :: real
  conversion_rate :: real
  demo_count :: nat
  demo_purchases :: nat
  demo_rate :: real
  jobs_placed :: nat
  ai_assist_requests :: nat
  promo_requests :: nat

text \<open>\<^verbatim>\<open>len(filtered_df[mask])\<close>.\<close>

definition count_rows :: "(row \<Rightarrow> bool) \<Rightarrow> row list \<Rightarrow> nat" where
  "count_rows P t = length (filter P t)"

definition compute_kpis :: "row list \<Rightarrow> kpis" where
  "compute_kpis t =
     (let revenue_sum = sum_list (map revenue t);
          interactions = length t;
          purchase_sum = sum_list (map purchase_flag t);
          conversion =
            (if interactions > 0 then purchase_sum / real interactions * 100 else 0);
          demos = count_rows (\<lambda>r. request_type r = ''demo'') t;
          demos_bought = count_rows (\<lambda>r. request_type r = ''demo'' \<and> purchase_flag r = 1) t;
          demo_conversion = (if demos > 0 then real demos_bought / real demos * 100 else 0);
          jobs = count_rows (\<lambda>r. job_type r \<noteq> ''None'') t;
          ai_assists = count_rows (\<lambda>r. request_type r = ''ai_assist'') t;
          promos = count_rows (\<lambda>r. request_type r = ''promo'') t
      in \<lparr>total_revenue = revenue_sum, total_interactions = interactions,
          purchases = purchase_sum, conversion_rate = conversion, demo_count = demos,
          demo_purchases = demos_bought, demo_rate = demo_conversion, jobs_placed = jobs,
          ai_assist_requests = ai_assists, promo_requests = promos\<rparr>)"

datatype status = Success | Warning | Danger

record metric_card =
  card_title :: string
  card_value :: real
  card_target :: real
  card_unit :: string
  card_status :: status

definition create_metric_card :: "string \<Rightarrow> real \<Rightarrow> real \<Rightarrow> string \<Rightarrow> metric_card" where
  "create_metric_card title v target unit =
     \<lparr>card_title = title, card_value = v, card_target = target, card_unit = unit,
      card_status = (if v \<ge> target * (9 / 10) then Success
                     else if v \<ge> target * (7 / 10) then Warning else Danger)\<rparr>"

definition make_kpi_cards :: "kpis \<Rightarrow> metric_card list" where
  "make_kpi_cards k =
     [create_metric_card ''Revenue'' (total_revenue k) (TARGETS Revenue) ''$'',
      create_metric_card ''Conversion Rate'' (conversion_rate k) (TARGETS ConversionRate) ''%'',
      create_metric_card ''Demo-to-Purchase'' (demo_rate k) (TARGETS DemoToPurchase) ''%'',
      create_metric_card ''Jobs Placed'' (real (jobs_placed k)) (TARGETS JobsPlaced) [],
      create_metric_card ''AI Assist Requests'' (real (ai_assist_requests k))
        (TARGETS AiAssistRequests) [],
      create_metric_card ''Promo Requests'' (real (promo_requests k)) (TARGETS PromoRequests) []]"

section \<open>Summary statistics\<close>

text \<open>
  \<^verbatim>\<open>filtered_df['date'] = filtered_df['timestamp'].dt.date\<close> and
  \<^verbatim>\<open>filtered_df['hour'] = filtered_df['timestamp'].dt.hour\<close>, as the new contents of
  the frame.
\<close>

definition set_date_column :: "row list \<Rightarrow> row list" where
  "set_date_column t = map (\<lambda>r. r\<lparr>date := Some (ts_date (timestamp r))\<rparr>) t"

definition set_hour_column :: "row list \<Rightarrow> row list" where
  "set_hour_column t = map (\<lambda>r. r\<lparr>hour := Some (ts_hour (timestamp r))\<rparr>) t"

text \<open>
  \<^verbatim>\<open>groupby(['date', 'request_type']).size().unstack(fill_value=0)\<close> has one row for
  every date of the table, in increasing order, and one column for every request type
  that occurs; a cell is the number of rows of that date and type.
  \<^verbatim>\<open>reset_index()\<close> raises when a column is itself called \<^verbatim>\<open>date\<close>. The job
  placements per date are merged in from the left and missing dates filled with 0; when
  a request type is itself called \<^verbatim>\<open>job_placements\<close> the merge renames both columns
  and the later \<^verbatim>\<open>stats_data['job_placements']\<close> raises \<^verbatim>\<open>KeyError\<close>.
  \<^verbatim>\<open>stats_data.get(c, pd.Series(0, ...))\<close> is the column when it exists and an all-zero
  series of the same length otherwise.
\<close>

record stats_frame =
  sf_dates :: "date option list"
  sf_promo :: "real list"
  sf_demo :: "real list"
  sf_ai_assist :: "real list"
  sf_job_placements :: "real list"

definition group_dates :: "row list \<Rightarrow> date option list" where
  "group_dates t = sort (remdups (map date t))"

definition daily_counts :: "(row \<Rightarrow> bool) \<Rightarrow> row list \<Rightarrow> real list" where
  "daily_counts P t = map (\<lambda>d. real (count_rows (\<lambda>r. date r = d \<and> P r) t)) (group_dates t)"

definition get_daily :: "string \<Rightarrow> row list \<Rightarrow> real list" where
  "get_daily c t =
     (if c \<in> set (map request_type t) then daily_counts (\<lambda>r. request_type r = c) t
      else replicate (length (group_dates t)) 0)"

definition stats_data :: "row list \<Rightarrow> exn + stats_frame" where
  "stats_data t =
     (if ''date'' \<in> set (map request_type t) then Inl (ColumnExists ''date'')
      else if ''job_placements'' \<in> set (map request_type t) then Inl (KeyError ''job_placements'')
      else Inr \<lparr>sf_dates = group_dates t,
                sf_promo = get_daily ''promo'' t,
                sf_demo = get_daily ''demo'' t,
                sf_ai_assist = get_daily ''ai_assist'' t,
                sf_job_placements = daily_counts (\<lambda>r. job_type r \<noteq> ''None'') t\<rparr>)"

text \<open>
  \<^verbatim>\<open>Series.mean()\<close>, \<^verbatim>\<open>.median()\<close> and \<^verbatim>\<open>.std()\<close> over the reals; \<open>None\<close> is
  NaN. \<^verbatim>\<open>std\<close> is the sample standard deviation (\<^verbatim>\<open>ddof=1\<close>), NaN for fewer than
  two values.
\<close>

definition series_mean :: "real list \<Rightarrow> real option" where
  "series_mean xs = (if xs = [] then None else Some (sum_list xs / real (length xs)))"

definition series_median :: "real list \<Rightarrow> real option" where
  "series_median xs =
     (if xs = [] then None
      else if odd (length xs) then Some (sort xs ! (length xs div 2))
      else Some ((sort xs ! (length xs div 2 - 1) + sort xs ! (length xs div 2)) / 2))"

definition series_std :: "real list \<Rightarrow> real option" where
  "series_std xs =
     (if length xs < 2 then None
      else Some (sqrt (sum_list (map (\<lambda>x. (x - sum_list xs / real (length xs))\<^sup>2) xs)
                       / real (length xs - 1))))"

record stats_row =
  metric :: string
  mean_value :: "real option"
  median_value :: "real option"
  std_value :: "real option"

definition stats_of :: "string \<Rightarrow> real list \<Rightarrow> stats_row" where
  "stats_of name xs =
     \<lparr>metric = name, mean_value = series_mean xs, median_value = series_median xs,
      std_value = series_std xs\<rparr>"

definition summary_stats :: "stats_frame \<Rightarrow> stats_row list" where
  "summary_stats sd =
     [stats_of ''Demo Requests'' (sf_demo sd),
      stats_of ''AI Assist Requests'' (sf_ai_assist sd),
      stats_of ''Promo Events'' (sf_promo sd),
      stats_of ''Job Placements'' (sf_job_placements sd)]"

text \<open>
  \<^verbatim>\<open>.round(2)\<close> on the table of statistics: NaN stays NaN, zero stays zero, any other
  value is rounded by the library.
\<close>

definition round2 :: "externals \<Rightarrow> real \<Rightarrow> real" where
  "round2 E x = (if x = 0 then 0 else np_round2 E x)"

definition round_row :: "externals \<Rightarrow> stats_row \<Rightarrow> stats_row" where
  "round_row E s =
     s\<lparr>mean_value := map_option (round2 E) (mean_value s),
       median_value := map_option (round2 E) (median_value s),
       std_value := map_option (round2 E) (std_value s)\<rparr>"

section \<open>Charts\<close>

text \<open>
  A figure is the data handed to plotly: \<open>Placeholder\<close> is a \<^verbatim>\<open>go.Figure()\<close> with
  only a title. Grouped sums and counts are maps from the group key.
\<close>

definition group_sum :: "(row \<Rightarrow> string) \<Rightarrow> row list \<Rightarrow> string \<Rightarrow> real option" where
  "group_sum key t k =
     (if k \<in> set (map key t) then Some (sum_list (map revenue (filter (\<lambda>r. key r = k) t)))
      else None)"

definition group_count :: "(row \<Rightarrow> string) \<Rightarrow> row list \<Rightarrow> string \<Rightarrow> nat option" where
  "group_count key t k =
     (if k \<in> set (map key t) then Some (count_rows (\<lambda>r. key r = k) t) else None)"

datatype trend_title = AverageHourlyTrends | HourlyTrendsOn date

record trend_row =
  tr_hour :: nat
  tr_promo :: real
  tr_demo :: real
  tr_ai_assist :: real
  tr_job_placements :: real

datatype figure =
    Placeholder string
  | RevenueBar "string \<Rightarrow> real option" real
  | RequestPie "string \<Rightarrow> nat option"
  | JobTypeBar "string \<Rightarrow> nat option"
  | AffiliateBar "string \<Rightarrow> real option"
  | RevenueMap string "string \<Rightarrow> real option"
  | TrendGraph trend_title "trend_row list"

definition revenue_bar_fig :: "row list \<Rightarrow> figure" where
  "revenue_bar_fig t = RevenueBar (group_sum salesperson_id t) (TARGETS Revenue)"

definition request_pie_fig :: "row list \<Rightarrow> figure" where
  "request_pie_fig t = RequestPie (group_count request_type t)"

definition job_type_bar_fig :: "row list \<Rightarrow> figure" where
  "job_type_bar_fig t = JobTypeBar (group_count job_type (filter (\<lambda>r. job_type r \<noteq> ''None'') t))"

definition affiliate_bar_fig :: "row list \<Rightarrow> figure" where
  "affiliate_bar_fig t =
     AffiliateBar (\<lambda>k. if k \<noteq> ''None'' then group_sum affiliate_code t k else None)"

text \<open>
  \<^verbatim>\<open>scope=continent.lower() if continent else 'world'\<close>; plotly raises on a scope it
  does not know.
\<close>

definition map_scope :: "externals \<Rightarrow> string option \<Rightarrow> string" where
  "map_scope E c = (if truthy_str c then str_lower E (the c) else ''world'')"

definition revenue_map_fig :: "externals \<Rightarrow> string option \<Rightarrow> row list \<Rightarrow> exn + figure" where
  "revenue_map_fig E c t =
     (if geo_scope_ok E (map_scope E c) then Inr (RevenueMap (map_scope E c) (group_sum country t))
      else Inl (InvalidScope (map_scope E c)))"

text \<open>
  The hourly table: grouped by \<^verbatim>\<open>(hour, request_type)\<close> and unstacked
  (\<^verbatim>\<open>reset_index()\<close> raises when a request type is itself called \<^verbatim>\<open>hour\<close>), the job
  placements per hour merged in, then merged from the left onto the hours 0 to 23 with
  missing cells 0. A column read with \<^verbatim>\<open>.get\<close> that does not exist is all zero; that
  is also the case of \<^verbatim>\<open>job_placements\<close> when a request type of that name made the
  merge rename both columns.
\<close>

definition hourly_count :: "(row \<Rightarrow> bool) \<Rightarrow> row list \<Rightarrow> nat \<Rightarrow> real" where
  "hourly_count P t h = real (count_rows (\<lambda>r. hour r = Some h \<and> P r) t)"

definition get_hourly :: "string \<Rightarrow> row list \<Rightarrow> nat \<Rightarrow> real" where
  "get_hourly c t h =
     (if c \<in> set (map request_type t) then hourly_count (\<lambda>r. request_type r = c) t h else 0)"

definition trend_row_at :: "row list \<Rightarrow> nat \<Rightarrow> trend_row" where
  "trend_row_at t h =
     \<lparr>tr_hour = h,
      tr_promo = get_hourly ''promo'' t h,
      tr_demo = get_hourly ''demo'' t h,
      tr_ai_assist = get_hourly ''ai_assist'' t h,
      tr_job_placements =
        (if ''job_placements'' \<in> set (map request_type t) then 0
         else hourly_count (\<lambda>r. job_type r \<noteq> ''None'') t h)\<rparr>"

definition trend_data :: "row list \<Rightarrow> exn + trend_row list" where
  "trend_data t =
     (if ''hour'' \<in> set (map request_type t) then Inl (ColumnExists ''hour'')
      else Inr (map (trend_row_at t) [0..<24]))"

text \<open>
  The two trend views: \<^verbatim>\<open>'average'\<close> groups the whole filtered table, anything else is
  parsed as a date (\<^verbatim>\<open>pd.to_datetime(trend_view).date()\<close>, which raises on \<^verbatim>\<open>None\<close>
  and on a string that is no date) and only the rows of that date are grouped.
\<close>

definition trend_fig :: "externals \<Rightarrow> string option \<Rightarrow> row list \<Rightarrow> exn + figure" where
  "trend_fig E trend_view t =
     (if trend_view = Some ''average'' then
        (case trend_data t of
           Inl e \<Rightarrow> Inl e
         | Inr rows \<Rightarrow> Inr (TrendGraph AverageHourlyTrends rows))
      else
        (case trend_view of
           None \<Rightarrow> Inl NoneHasNoDate
         | Some s \<Rightarrow>
             (case to_datetime E s of
                None \<Rightarrow> Inl (DateParseError s)
              | Some selected_date \<Rightarrow>
                  (case trend_data (filter (\<lambda>r. ts_date (timestamp r) = selected_date) t) of
                     Inl e \<Rightarrow> Inl e
                   | Inr rows \<Rightarrow> Inr (TrendGraph (HourlyTrendsOn selected_date) rows)))))"

section \<open>The main callback\<close>

text \<open>
  The error message shown under the charts: a fixed text, or
  the text \<^verbatim>\<open>Error updating dashboard: \<close> followed by \<^verbatim>\<open>str(e)\<close>.
\<close>

datatype message = Msg string | ErrorUpdatingDashboard exn

text \<open>The fifteen outputs of \<^verbatim>\<open>update_dashboard\<close>, in the order of the source.\<close>

record outputs =
  kpi_cards :: "metric_card list"
  revenue_bar :: figure
  request_pie :: figure
  job_type_bar :: figure
  affiliate_bar :: figure
  revenue_map :: figure
  trend_graph :: figure
  filtered_data :: "row list"
  error_message :: message
  continent_value :: "string option"
  country_value :: "string list option"
  product_value :: "string list option"
  start_date_value :: date_input
  end_date_value :: date_input
  summary_stats_table :: "stats_row list"

text \<open>
  The tuple all three early returns share: every figure the same titled empty figure,
  no cards, no rows, no table, the controls set to \<^verbatim>\<open>None, [], [], min_date, max_date\<close>.
\<close>

definition placeholder_bundle :: "string \<Rightarrow> message \<Rightarrow> row list \<Rightarrow> outputs" where
  "placeholder_bundle title msg df =
     \<lparr>kpi_cards = [], revenue_bar = Placeholder title, request_pie = Placeholder title,
      job_type_bar = Placeholder title, affiliate_bar = Placeholder title,
      revenue_map = Placeholder title, trend_graph = Placeholder title,
      filtered_data = [], error_message = msg,
      continent_value = None, country_value = Some [], product_value = Some [],
      start_date_value = DateObj (min_date df), end_date_value = DateObj (max_date df),
      summary_stats_table = []\<rparr>"

text \<open>
  Everything after the empty check, on the non-empty filtered table, in the order of
  the source: the first exception ends it.
\<close>

definition render ::
  "externals \<Rightarrow> row list \<Rightarrow> string option \<Rightarrow> string list option \<Rightarrow> string list option \<Rightarrow>
   date_input \<Rightarrow> date_input \<Rightarrow> string option \<Rightarrow> exn + outputs" where
  "render E t c countries products start_date end_date trend_view =
     (case stats_data (set_date_column t) of
        Inl e \<Rightarrow> Inl e
      | Inr sd \<Rightarrow>
          (case revenue_map_fig E c (set_date_column t) of
             Inl e \<Rightarrow> Inl e
           | Inr fig_map \<Rightarrow>
               (case trend_fig E trend_view (set_hour_column (set_date_column t)) of
                  Inl e \<Rightarrow> Inl e
                | Inr fig_trend \<Rightarrow>
                    Inr \<lparr>kpi_cards = make_kpi_cards (compute_kpis t),
                         revenue_bar = revenue_bar_fig (set_date_column t),
                         request_pie = request_pie_fig (set_date_column t),
                         job_type_bar = job_type_bar_fig (set_date_column t),
                         affiliate_bar = affiliate_bar_fig (set_date_column t),
                         revenue_map = fig_map,
                         trend_graph = fig_trend,
                         filtered_data = set_hour_column (set_date_column t),
                         error_message = Msg [],
                         continent_value = c,
                         country_value = countries,
                         product_value = products,
                         start_date_value = start_date,
                         end_date_value = end_date,
                         summary_stats_table = map (round_row E) (summary_stats sd)\<rparr>)))"

text \<open>
  \<^verbatim>\<open>update_dashboard\<close>: \<open>df\<close> is the module's table, \<open>triggered_id\<close> is
  \<^verbatim>\<open>callback_context.triggered_id\<close>, the other arguments are the callback's own.
\<close>

definition update_dashboard ::
  "externals \<Rightarrow> row list \<Rightarrow> string option \<Rightarrow> string option \<Rightarrow> string list option \<Rightarrow>
   string list option \<Rightarrow> date_input \<Rightarrow> date_input \<Rightarrow> nat option \<Rightarrow> string option \<Rightarrow> outputs" where
  "update_dashboard E df triggered_id c0 countries0 products0 start_date0 end_date0
     reset_clicks trend_view0 =
     (let reset = (triggered_id = Some ''reset-button'');
          c = (if reset then None else c0);
          countries = (if reset then Some [] else countries0);
          products = (if reset then Some [] else products0);
          start_date = (if reset then DateObj (min_date df) else start_date0);
          end_date = (if reset then DateObj (max_date df) else end_date0);
          trend_view = (if reset then Some ''average'' else trend_view0)
      in case apply_filters E df c countries products start_date end_date of
           InvalidDateRange \<Rightarrow>
             placeholder_bundle ''Invalid Date Range'' (Msg ''Invalid date range selected'') df
         | Raised e \<Rightarrow>
             placeholder_bundle ''Error Occurred'' (ErrorUpdatingDashboard e) df
         | EmptyResult \<Rightarrow>
             placeholder_bundle ''No Data Available''
               (Msg ''No data available for selected filters'') df
         | Filtered t sd ed \<Rightarrow>
             (case render E t c countries products sd ed trend_view of
                Inl e \<Rightarrow> placeholder_bundle ''Error Occurred'' (ErrorUpdatingDashboard e) df
              | Inr b \<Rightarrow> b))"

text \<open>
  The values of the callback's seven \<^verbatim>\<open>Input\<close> components between cycles. Dash calls
  the callback with them and writes the returned tuple into the \<^verbatim>\<open>Output\<close> properties
  the decorator lists; of the inputs these are the values of \<^verbatim>\<open>continent-filter\<close>,
  \<^verbatim>\<open>country-filter\<close> and \<^verbatim>\<open>product-filter\<close> and the two dates of \<^verbatim>\<open>date-filter\<close>.
  \<^verbatim>\<open>reset-button.n_clicks\<close> and \<^verbatim>\<open>trend-view-filter.value\<close> are inputs only: a cycle
  leaves them as they are.
\<close>

record controls =
  continent_ctl :: "string option"
  countries_ctl :: "string list option"
  products_ctl :: "string list option"
  start_date_ctl :: date_input
  end_date_ctl :: date_input
  reset_clicks_ctl :: "nat option"
  trend_view_ctl :: "string option"

definition cycle :: "externals \<Rightarrow> row list \<Rightarrow> string option \<Rightarrow> controls \<Rightarrow> outputs \<times> controls" where
  "cycle E df triggered_id k =
     (let b = update_dashboard E df triggered_id (continent_ctl k) (countries_ctl k)
                (products_ctl k) (start_date_ctl k) (end_date_ctl k) (reset_clicks_ctl k)
                (trend_view_ctl k)
      in (b, k\<lparr>continent_ctl := continent_value b,
                countries_ctl := country_value b,
                products_ctl := product_value b,
                start_date_ctl := start_date_value b,
                end_date_ctl := end_date_value b\<rparr>))"

section \<open>The download callback\<close>

text \<open>
  \<^verbatim>\<open>download_report\<close>: nothing for an empty or missing store, nothing when the
  statistics raise; otherwise the four rows written to the CSV file, not rounded.
\<close>

definition download_report :: "nat option \<Rightarrow> row list option \<Rightarrow> stats_row list option" where
  "download_report n_clicks stored =
     (case stored of
        None \<Rightarrow> None
      | Some rows \<Rightarrow>
          if rows = [] then None
          else (case stats_data (set_date_column rows) of
                  Inl e \<Rightarrow> None
                | Inr sd \<Rightarrow> Some (summary_stats sd)))"

section \<open>Frames as objects\<close>

text \<open>
  The module's \<^verbatim>\<open>df\<close> and the callback's \<^verbatim>\<open>filtered_df\<close> are references to frame
  objects. The store lists the objects; a reference is an index into it.
  \<^verbatim>\<open>df.copy()\<close>, \<^verbatim>\<open>pd.DataFrame()\<close> and \<^verbatim>\<open>filtered_df[mask]\<close> make a new object,
  \<^verbatim>\<open>filtered_df['date'] = ...\<close> changes the object the variable refers to.
\<close>

type_synonym ref = nat

type_synonym store = "frame list"

definition new_object :: "frame \<Rightarrow> store \<Rightarrow> ref \<times> store" where
  "new_object f \<sigma> = (length \<sigma>, \<sigma> @ [f])"

text \<open>
  \<^verbatim>\<open>if active: filtered_df = filtered_df[mask]\<close> on the variable \<open>v\<close> (its reference
  and the store): the variable is rebound to a new object, the old one is only read.
\<close>

definition select_object ::
  "bool \<Rightarrow> string \<Rightarrow> (row \<Rightarrow> bool) \<Rightarrow> ref \<times> store \<Rightarrow> exn + ref \<times> store" where
  "select_object active col P v =
     (if active then
        (case select_rows col P (snd v ! fst v) of
           Inl x \<Rightarrow> Inl x
         | Inr f \<Rightarrow> Inr (new_object f (snd v)))
      else Inr v)"

text \<open>
  \<^verbatim>\<open>filtered_df[col] = ...\<close>: the object at \<open>r\<close> is changed in place. The callback only
  does this to a frame that has rows.
\<close>

definition assign_column :: "(row list \<Rightarrow> row list) \<Rightarrow> ref \<Rightarrow> store \<Rightarrow> store" where
  "assign_column g r \<sigma> = \<sigma>[r := Table (g (rows_of (\<sigma> ! r)))]"

text \<open>
  The filter block on objects: \<^verbatim>\<open>filtered_df = df.copy() if not df.empty else pd.DataFrame()\<close>,
  then the four filters. It returns how the block ends and the variable \<^verbatim>\<open>filtered_df\<close>.
\<close>

definition apply_filters_store ::
  "externals \<Rightarrow> ref \<Rightarrow> string option \<Rightarrow> string list option \<Rightarrow> string list option \<Rightarrow>
   date_input \<Rightarrow> date_input \<Rightarrow> store \<Rightarrow> filter_result \<times> ref \<times> store" where
  "apply_filters_store E df c countries products start_date end_date \<sigma> =
     (let v0 = (if \<not> frame_empty (\<sigma> ! df) then new_object (\<sigma> ! df) \<sigma>
                else new_object NoColumns \<sigma>) in
      case select_object (truthy_str c) ''continent'' (continent_pred c) v0 of
        Inl x \<Rightarrow> (Raised x, v0)
      | Inr v1 \<Rightarrow>
          (case select_object (truthy_list countries) ''country'' (country_pred countries) v1 of
             Inl x \<Rightarrow> (Raised x, v1)
           | Inr v2 \<Rightarrow>
               (case select_object (truthy_list products) ''product_type''
                       (product_pred products) v2 of
                  Inl x \<Rightarrow> (Raised x, v2)
                | Inr v3 \<Rightarrow>
                    if truthy_date start_date \<and> truthy_date end_date then
                      (case parse_date E start_date of
                         None \<Rightarrow> (InvalidDateRange, v3)
                       | Some sd \<Rightarrow>
                           (case parse_date E end_date of
                              None \<Rightarrow> (InvalidDateRange, v3)
                            | Some ed \<Rightarrow>
                                (case select_object True ''timestamp'' (date_pred sd ed) v3 of
                                   Inl x \<Rightarrow> (InvalidDateRange, v3)
                                 | Inr v4 \<Rightarrow>
                                     if frame_empty (snd v4 ! fst v4) then (EmptyResult, v4)
                                     else (Filtered (rows_of (snd v4 ! fst v4)) (DateObj sd)
                                             (DateObj ed), v4))))
                    else if frame_empty (snd v3 ! fst v3) then (EmptyResult, v3)
                    else (Filtered (rows_of (snd v3 ! fst v3)) start_date end_date, v3))))"

text \<open>
  The aggregations on the object \<open>r\<close>: the two column assignments change it in place,
  everything else reads it. The retained rows are the object's rows at the end.
\<close>

definition render_store ::
  "externals \<Rightarrow> ref \<Rightarrow> string option \<Rightarrow> string list option \<Rightarrow> string list option \<Rightarrow>
   date_input \<Rightarrow> date_input \<Rightarrow> string option \<Rightarrow> store \<Rightarrow> (exn + outputs) \<times> store" where
  "render_store E r c countries products start_date end_date trend_view \<sigma> =
     (let cards = make_kpi_cards (compute_kpis (rows_of (\<sigma> ! r)));
          \<sigma>1 = assign_column set_date_column r \<sigma>
      in case stats_data (rows_of (\<sigma>1 ! r)) of
           Inl x \<Rightarrow> (Inl x, \<sigma>1)
         | Inr sd \<Rightarrow>
             (case revenue_map_fig E c (rows_of (\<sigma>1 ! r)) of
                Inl x \<Rightarrow> (Inl x, \<sigma>1)
              | Inr fig_map \<Rightarrow>
                  (let \<sigma>2 = assign_column set_hour_column r \<sigma>1
                   in case trend_fig E trend_view (rows_of (\<sigma>2 ! r)) of
                        Inl x \<Rightarrow> (Inl x, \<sigma>2)
                      | Inr fig_trend \<Rightarrow>
                          (Inr \<lparr>kpi_cards = cards,
                                revenue_bar = revenue_bar_fig (rows_of (\<sigma>1 ! r)),
                                request_pie = request_pie_fig (rows_of (\<sigma>1 ! r)),
                                job_type_bar = job_type_bar_fig (rows_of (\<sigma>1 ! r)),
                                affiliate_bar = affiliate_bar_fig (rows_of (\<sigma>1 ! r)),
                                revenue_map = fig_map,
                                trend_graph = fig_trend,
                                filtered_data = rows_of (\<sigma>2 ! r),
                                error_message = Msg [],
                                continent_value = c,
                                country_value = countries,
                                product_value = products,
                                start_date_value = start_date,
                                end_date_value = end_date,
                                summary_stats_table = map (round_row E) (summary_stats sd)\<rparr>,
                           \<sigma>2))))"

text \<open>
  \<^verbatim>\<open>update_dashboard\<close> on objects: \<open>df\<close> refers to the module's table; the result is
  the callback's outputs and the store it leaves. \<^verbatim>\<open>min_date\<close> and \<^verbatim>\<open>max_date\<close> were
  computed from the module's table when it was loaded.
\<close>

definition update_dashboard_store ::
  "externals \<Rightarrow> ref \<Rightarrow> string option \<Rightarrow> string option \<Rightarrow> string list option \<Rightarrow>
   string list option \<Rightarrow> date_input \<Rightarrow> date_input \<Rightarrow> nat option \<Rightarrow> string option \<Rightarrow>
   store \<Rightarrow> outputs \<times> store" where
  "update_dashboard_store E df triggered_id c0 countries0 products0 start_date0 end_date0
     reset_clicks trend_view0 \<sigma> =
     (let base = rows_of (\<sigma> ! df);
          reset = (triggered_id = Some ''reset-button'');
          c = (if reset then None else c0);
          countries = (if reset then Some [] else countries0);
          products = (if reset then Some [] else products0);
          start_date = (if reset then DateObj (min_date base) else start_date0);
          end_date = (if reset then DateObj (max_date base) else end_date0);
          trend_view = (if reset then Some ''average'' else trend_view0)
      in case apply_filters_store E df c countries products start_date end_date \<sigma> of
           (InvalidDateRange, v) \<Rightarrow>
             (placeholder_bundle ''Invalid Date Range'' (Msg ''Invalid date range selected'') base,
              snd v)
         | (Raised x, v) \<Rightarrow>
             (placeholder_bundle ''Error Occurred'' (ErrorUpdatingDashboard x) base, snd v)
         | (EmptyResult, v) \<Rightarrow>
             (placeholder_bundle ''No Data Available''
                (Msg ''No data available for selected filters'') base, snd v)
         | (Filtered t sd ed, v) \<Rightarrow>
             (case render_store E (fst v) c countries products sd ed trend_view (snd v) of
                (Inl x, \<sigma>') \<Rightarrow>
                  (placeholder_bundle ''Error Occurred'' (ErrorUpdatingDashboard x) base, \<sigma>')
              | (Inr b, \<sigma>') \<Rightarrow> (b, \<sigma>')))"

text \<open>
  For the proofs: the variable \<open>v\<close> refers to an object made after the store \<open>\<sigma>\<close>, that
  object is the frame \<open>f\<close>, and every object of \<open>\<sigma>\<close> is still what it was.
\<close>

definition holds :: "store \<Rightarrow> frame \<Rightarrow> ref \<times> store \<Rightarrow> bool" where
  "holds \<sigma> f v =
     (take (length \<sigma>) (snd v) = \<sigma> \<and> length \<sigma> \<le> fst v \<and> fst v < length (snd v)
      \<and> snd v ! fst v = f)"

text \<open>
  For the proofs: the filter block on objects ended as \<open>res\<close>, its variable refers to
  an object made after \<open>\<sigma>\<close>, every object of \<open>\<sigma>\<close> is still what it was, and when
  the block hands over a table that object holds it.
\<close>

definition ends_well :: "store \<Rightarrow> filter_result \<Rightarrow> filter_result \<times> ref \<times> store \<Rightarrow> bool" where
  "ends_well \<sigma> res out =
     (fst out = res \<and> take (length \<sigma>) (snd (snd out)) = \<sigma> \<and> length \<sigma> \<le> fst (snd out)
      \<and> fst (snd out) < length (snd (snd out))
      \<and> (\<forall>t sd ed. res = Filtered t sd ed \<longrightarrow> snd (snd out) ! fst (snd out) = Table t))"

section \<open>Example data\<close>

text \<open>
  A stand-in for the libraries on the few strings and numbers the examples use (the
  rounding is to the nearest hundredth of the real, which is what the library returns
  away from ties), and two rows: the row of the specification's scenario and a job
  placement on the next day.
\<close>

definition example_libs :: externals where
  "example_libs =
     \<lparr>to_datetime = map_of [(''2024-01-01'', (2024, 1, 1)), (''2024-03-01'', (2024, 3, 1)),
                            (''2024-03-02'', (2024, 3, 2)), (''2025-01-01'', (2025, 1, 1))],
      str_lower = (\<lambda>s. if s = ''Europe'' then ''europe'' else if s = ''Asia'' then ''asia''
                       else if s = ''Oceania'' then ''oceania'' else s),
      geo_scope_ok = (\<lambda>s. s \<in> set [''africa'', ''asia'', ''europe'', ''north america'',
                                      ''south america'', ''usa'', ''world'']),
      np_round2 = (\<lambda>x. of_int \<lfloor>x * 100 + 1 / 2\<rfloor> / 100)\<rparr>"

definition europe_row :: row where
  "europe_row =
     \<lparr>timestamp = \<lparr>ts_date = (2024, 3, 1), ts_hour = 10, ts_minute = 0, ts_second = 0\<rparr>,
      continent = ''Europe'', country = ''Germany'', salesperson_id = ''SP001'',
      product_type = ''AI-Powered CRM'', request_type = ''demo'', job_type = ''None'',
      revenue = 150, purchase_flag = 1, affiliate_code = ''AF001'',
      date = None, hour = None\<rparr>"

definition asia_row :: row where
  "asia_row =
     \<lparr>timestamp = \<lparr>ts_date = (2024, 3, 2), ts_hour = 15, ts_minute = 30, ts_second = 0\<rparr>,
      continent = ''Asia'', country = ''Japan'', salesperson_id = ''SP002'',
      product_type = ''Virtual Assistant Suite'', request_type = ''job'',
      job_type = ''consulting'', revenue = 0, purchase_flag = 0, affiliate_code = ''AF002'',
      date = None, hour = None\<rparr>"

text \<open>
  A state of the controls: Asia and Japan selected, a reversed date range, one click on
  reset, and the trend view on the second day.
\<close>

definition example_controls :: controls where
  "example_controls =
     \<lparr>continent_ctl = Some ''Asia'', countries_ctl = Some [''Japan''], products_ctl = None,
      start_date_ctl = DateStr ''2025-01-01'', end_date_ctl = DateStr ''2024-01-01'',
      reset_clicks_ctl = Some 1, trend_view_ctl = Some ''2024-03-02''\<rparr>"

text \<open>A row of the continent the dataset generator also produces and plotly has no scope for.\<close>

definition oceania_row :: row where
  "oceania_row =
     \<lparr>timestamp = \<lparr>ts_date = (2024, 3, 1), ts_hour = 9, ts_minute = 15, ts_second = 0\<rparr>,
      continent = ''Oceania'', country = ''Australia'', salesperson_id = ''SP003'',
      product_type = ''AI-Powered CRM'', request_type = ''demo'', job_type = ''None'',
      revenue = 200, purchase_flag = 1, affiliate_code = ''AF003'',
      date = None, hour = None\<rparr>"

section \<open>Filter engine: properties\<close>

text \<open>
  Each filter step keeps the rows that pass a test on the single row, so any sequence
  of steps is one \<open>filter\<close> by the conjunction of the tests.
\<close>

lemma filter_step_as_filter:
  "filter_step c cs ps dr k t = filter (\<lambda>r. filter_step c cs ps dr k [r] = [r]) t"
  by (cases k) (auto split: option.splits intro: filter_cong)

lemma fold_filter_step:
  "fold (filter_step c cs ps dr) ks t = filter (\<lambda>r. \<forall>k\<in>set ks. filter_step c cs ps dr k [r] = [r]) t"
proof (induction ks arbitrary: t)
  case Nil
  then show ?case by simp
next
  case (Cons k ks)
  have "fold (filter_step c cs ps dr) (k # ks) t
      = filter (\<lambda>r. \<forall>k\<in>set ks. filter_step c cs ps dr k [r] = [r])
          (filter (\<lambda>r. filter_step c cs ps dr k [r] = [r]) t)"
    using Cons.IH filter_step_as_filter[of c cs ps dr k t] by simp
  also have "\<dots> = filter (\<lambda>r. \<forall>k\<in>set (k # ks). filter_step c cs ps dr k [r] = [r]) t"
    by (simp add: conj_commute)
  finally show ?case .
qed

lemma fold_filter_step_perm:
  assumes "mset ks = mset ks'"
  shows "fold (filter_step c cs ps dr) ks t = fold (filter_step c cs ps dr) ks' t"
proof -
  have "set ks = set ks'" using assms by (rule mset_eq_setD)
  then show ?thesis by (simp add: fold_filter_step)
qed

lemma fold_filter_step_idem:
  "fold (filter_step c cs ps dr) ks (fold (filter_step c cs ps dr) ks t)
     = fold (filter_step c cs ps dr) ks t"
  by (simp add: fold_filter_step)

text \<open>The filter block of the callback on a table that has rows, and so columns.\<close>

lemma date_filter_Table:
  "date_filter E s e (Table t) =
     (case parsed_range E s e of
        None \<Rightarrow> None
      | Some None \<Rightarrow> Some (Table t, s, e)
      | Some (Some (sd, ed)) \<Rightarrow> Some (Table (filter (date_pred sd ed) t), DateObj sd, DateObj ed))"
  by (simp add: date_filter_def parsed_range_def split: option.splits)

lemma continent_filter_Table:
  "continent_filter c (Table t) = Inr (Table (filter_step c cs ps dr ByContinent t))"
  by (simp add: continent_filter_def)

lemma country_filter_Table:
  "country_filter cs (Table t) = Inr (Table (filter_step c cs ps dr ByCountry t))"
  by (simp add: country_filter_def)

lemma product_filter_Table:
  "product_filter ps (Table t) = Inr (Table (filter_step c cs ps dr ByProduct t))"
  by (simp add: product_filter_def)

lemma apply_filters_nonempty:
  assumes "df \<noteq> []"
  shows "apply_filters E df c cs ps s e =
     (case parsed_range E s e of
        None \<Rightarrow> InvalidDateRange
      | Some dr \<Rightarrow>
          if fold (filter_step c cs ps dr) [ByContinent, ByCountry, ByProduct, ByDate] df = []
          then EmptyResult
          else Filtered (fold (filter_step c cs ps dr) [ByContinent, ByCountry, ByProduct, ByDate] df)
                 (case dr of None \<Rightarrow> s | Some (sd, ed) \<Rightarrow> DateObj sd)
                 (case dr of None \<Rightarrow> e | Some (sd, ed) \<Rightarrow> DateObj ed))"
proof (cases "parsed_range E s e")
  case None
  then show ?thesis using assms
    by (simp add: apply_filters_def continent_filter_Table[of c _ cs ps None]
        country_filter_Table[of cs _ c ps None] product_filter_Table[of ps _ c cs None]
        date_filter_Table)
next
  case (Some dr)
  then show ?thesis using assms
    by (cases dr)
       (simp_all add: apply_filters_def continent_filter_Table[of c _ cs ps dr]
        country_filter_Table[of cs _ c ps dr] product_filter_Table[of ps _ c cs dr]
        date_filter_Table frame_empty_def split: prod.splits)
qed

text \<open>With no rows in the module's table the callback never reaches the aggregations.\<close>

lemma apply_filters_empty_base:
  "apply_filters E [] c cs ps s e \<noteq> Filtered t sd ed"
  by (auto simp: apply_filters_def continent_filter_def country_filter_def product_filter_def
      date_filter_def frame_empty_def split: option.splits sum.splits if_splits)

text \<open>The example library and rows, evaluated.\<close>

lemma example_parse [simp]:
  "to_datetime example_libs ''2024-01-01'' = Some (2024, 1, 1)"
  "to_datetime example_libs ''2024-03-01'' = Some (2024, 3, 1)"
  "to_datetime example_libs ''2024-03-02'' = Some (2024, 3, 2)"
  "to_datetime example_libs ''2025-01-01'' = Some (2025, 1, 1)"
  by (simp_all add: example_libs_def)

lemma example_range:
  "parsed_range example_libs (DateStr ''2024-01-01'') (DateStr ''2025-01-01'')
     = Some (Some ((2024, 1, 1), (2025, 1, 1)))"
  by (simp add: parsed_range_def)

lemma example_filter_europe:
  "apply_filters example_libs [europe_row, asia_row] (Some ''Europe'') None None
     (DateStr ''2024-01-01'') (DateStr ''2025-01-01'')
   = Filtered [europe_row] (DateObj (2024, 1, 1)) (DateObj (2025, 1, 1))"
  by (simp add: apply_filters_nonempty parsed_range_def truthy_str_def truthy_list_def
      continent_pred_def date_pred_def europe_row_def asia_row_def)

text \<open>
  C3. Whenever the filter block hands a table \<open>t\<close> to the aggregations, every row of
  \<open>t\<close> is a row of the base table (as a set and with multiplicities), and running the
  same filter values against \<open>t\<close> as the base table hands over \<open>t\<close> again, with the
  same rebound dates.
\<close>

theorem filtered_subset_idempotent:
  assumes "apply_filters E df c cs ps s e = Filtered t sd ed"
  shows "set t \<subseteq> set df \<and> mset t \<subseteq># mset df \<and> apply_filters E t c cs ps s e = Filtered t sd ed"
proof -
  have ne: "df \<noteq> []" using assms apply_filters_empty_base by blast
  from assms obtain dr where dr: "parsed_range E s e = Some dr"
    by (cases "parsed_range E s e") (simp_all add: apply_filters_nonempty[OF ne])
  let ?t = "fold (filter_step c cs ps dr) [ByContinent, ByCountry, ByProduct, ByDate] df"
  from assms dr have t: "t = ?t" and tne: "?t \<noteq> []"
    and sd: "sd = (case dr of None \<Rightarrow> s | Some (sd, ed) \<Rightarrow> DateObj sd)"
    and ed: "ed = (case dr of None \<Rightarrow> e | Some (sd, ed) \<Rightarrow> DateObj ed)"
    by (simp_all add: apply_filters_nonempty[OF ne] split: if_splits)
  have sub: "set t \<subseteq> set df" unfolding t fold_filter_step by auto
  have msub: "mset t \<subseteq># mset df" unfolding t fold_filter_step by simp
  have "apply_filters E t c cs ps s e = Filtered t sd ed"
    using tne dr fold_filter_step_idem[of c cs ps dr "[ByContinent, ByCountry, ByProduct, ByDate]" df]
    unfolding t sd ed
    by (simp only: apply_filters_nonempty[OF tne] option.case if_False)
  with sub msub show ?thesis by blast
qed

theorem filtered_subset_idempotent_witness:
  "apply_filters example_libs [europe_row, asia_row] (Some ''Europe'') None None
     (DateStr ''2024-01-01'') (DateStr ''2025-01-01'')
   = Filtered [europe_row] (DateObj (2024, 1, 1)) (DateObj (2025, 1, 1))
   \<and> set [europe_row] \<subseteq> set [europe_row, asia_row]
   \<and> apply_filters example_libs [europe_row] (Some ''Europe'') None None
     (DateStr ''2024-01-01'') (DateStr ''2025-01-01'')
   = Filtered [europe_row] (DateObj (2024, 1, 1)) (DateObj (2025, 1, 1))"
  using filtered_subset_idempotent[OF example_filter_europe] example_filter_europe by simp

text \<open>
  C4. For filter values whose dates parse (or whose date block is skipped), applying
  the four filters in any order \<open>ks\<close> keeps exactly the rows that pass every active
  filter; and on a base table with rows this is the table the callback's filter block
  produces (it ends in \<open>EmptyResult\<close> exactly when no row is kept).
\<close>

theorem filters_order_independent:
  assumes "parsed_range E s e = Some dr"
    and "mset ks = mset [ByContinent, ByCountry, ByProduct, ByDate]"
  shows "fold (filter_step c cs ps dr) ks df
           = filter (\<lambda>r. (truthy_str c \<longrightarrow> continent_pred c r)
                        \<and> (truthy_list cs \<longrightarrow> country_pred cs r)
                        \<and> (truthy_list ps \<longrightarrow> product_pred ps r)
                        \<and> (\<forall>sd ed. dr = Some (sd, ed) \<longrightarrow> date_pred sd ed r)) df
         \<and> (df \<noteq> [] \<longrightarrow>
              (case apply_filters E df c cs ps s e of
                 Filtered t sd ed \<Rightarrow> t = fold (filter_step c cs ps dr) ks df
               | EmptyResult \<Rightarrow> fold (filter_step c cs ps dr) ks df = []
               | _ \<Rightarrow> False))"
proof -
  have perm: "fold (filter_step c cs ps dr) ks df
      = fold (filter_step c cs ps dr) [ByContinent, ByCountry, ByProduct, ByDate] df"
    using assms(2) by (rule fold_filter_step_perm)
  have "fold (filter_step c cs ps dr) [ByContinent, ByCountry, ByProduct, ByDate] df
           = filter (\<lambda>r. (truthy_str c \<longrightarrow> continent_pred c r)
                        \<and> (truthy_list cs \<longrightarrow> country_pred cs r)
                        \<and> (truthy_list ps \<longrightarrow> product_pred ps r)
                        \<and> (\<forall>sd ed. dr = Some (sd, ed) \<longrightarrow> date_pred sd ed r)) df"
    unfolding fold_filter_step
    by (rule filter_cong) (auto split: option.splits)
  moreover have "df \<noteq> [] \<longrightarrow>
              (case apply_filters E df c cs ps s e of
                 Filtered t sd ed \<Rightarrow> t = fold (filter_step c cs ps dr) ks df
               | EmptyResult \<Rightarrow> fold (filter_step c cs ps dr) ks df = []
               | _ \<Rightarrow> False)"
    using assms(1) by (simp add: apply_filters_nonempty perm)
  ultimately show ?thesis using perm by simp
qed

theorem filters_order_independent_witness:
  "fold (filter_step (Some ''Europe'') (Some [''Germany'', ''Japan'']) None
           (Some ((2024, 1, 1), (2025, 1, 1))))
      [ByDate, ByProduct, ByCountry, ByContinent] [europe_row, asia_row] = [europe_row]
   \<and> apply_filters example_libs [europe_row, asia_row] (Some ''Europe'')
        (Some [''Germany'', ''Japan'']) None (DateStr ''2024-01-01'') (DateStr ''2025-01-01'')
      = Filtered [europe_row] (DateObj (2024, 1, 1)) (DateObj (2025, 1, 1))"
proof -
  have p: "mset [ByDate, ByProduct, ByCountry, ByContinent]
             = mset [ByContinent, ByCountry, ByProduct, ByDate]"
    by simp
  show ?thesis
    using filters_order_independent[OF example_range p, of "Some ''Europe''"
        "Some [''Germany'', ''Japan'']" None "[europe_row, asia_row]"]
    by (simp add: apply_filters_nonempty example_range truthy_str_def truthy_list_def
        continent_pred_def country_pred_def date_pred_def europe_row_def asia_row_def)
qed

section \<open>The cycle's early returns\<close>

text \<open>The callback without a reset, and a reset as the callback on the default values.\<close>

lemma update_dashboard_no_reset:
  assumes "trig \<noteq> Some ''reset-button''"
  shows "update_dashboard E df trig c cs ps s e n tv =
     (case apply_filters E df c cs ps s e of
        InvalidDateRange \<Rightarrow>
          placeholder_bundle ''Invalid Date Range'' (Msg ''Invalid date range selected'') df
      | Raised x \<Rightarrow> placeholder_bundle ''Error Occurred'' (ErrorUpdatingDashboard x) df
      | EmptyResult \<Rightarrow>
          placeholder_bundle ''No Data Available'' (Msg ''No data available for selected filters'') df
      | Filtered t sd ed \<Rightarrow>
          (case render E t c cs ps sd ed tv of
             Inl x \<Rightarrow> placeholder_bundle ''Error Occurred'' (ErrorUpdatingDashboard x) df
           | Inr b \<Rightarrow> b))"
  using assms unfolding update_dashboard_def Let_def by (simp only: if_False)

lemma update_dashboard_reset:
  "update_dashboard E df (Some ''reset-button'') c cs ps s e n tv =
     update_dashboard E df None None (Some []) (Some []) (DateObj (min_date df))
       (DateObj (max_date df)) n (Some ''average'')"
  unfolding update_dashboard_def Let_def by simp

lemma apply_filters_empty_table:
  "apply_filters E [] c cs ps s e =
     (if truthy_str c then Raised (KeyError ''continent'')
      else if truthy_list cs then Raised (KeyError ''country'')
      else if truthy_list ps then Raised (KeyError ''product_type'')
      else if truthy_date s \<and> truthy_date e then InvalidDateRange
      else EmptyResult)"
  by (simp add: apply_filters_def continent_filter_def country_filter_def product_filter_def
      date_filter_def frame_empty_def split: option.splits)

text \<open>
  C1 (amended). In a cycle that is not a reset, with both dates given: when a date does
  not parse, and the base table has rows or no continent, country or product filter is
  set, the callback returns the "Invalid Date Range" tuple (every figure a placeholder
  of that title, no cards, rows or table, the date fields set to the dataset's bounds).
  A range whose dates parse with start after end is not rejected: on a base table with
  rows no row passes the date filter and the callback returns the "No Data Available"
  tuple instead. Only on a base table without rows, with no continent, country or
  product filter set, does such a range end in "Invalid Date Range", as every pair of
  given dates does there.
\<close>

theorem invalid_or_reversed_range:
  assumes "trig \<noteq> Some ''reset-button''" and "truthy_date s" and "truthy_date e"
  shows "((df \<noteq> [] \<or> \<not> truthy_str c \<and> \<not> truthy_list cs \<and> \<not> truthy_list ps)
            \<and> (parse_date E s = None \<or> parse_date E e = None) \<longrightarrow>
            update_dashboard E df trig c cs ps s e n tv
              = placeholder_bundle ''Invalid Date Range'' (Msg ''Invalid date range selected'') df)
       \<and> (\<forall>sd ed. df \<noteq> [] \<and> parse_date E s = Some sd \<and> parse_date E e = Some ed \<and> ed < sd \<longrightarrow>
            update_dashboard E df trig c cs ps s e n tv
              = placeholder_bundle ''No Data Available''
                  (Msg ''No data available for selected filters'') df)
       \<and> (df = [] \<and> \<not> truthy_str c \<and> \<not> truthy_list cs \<and> \<not> truthy_list ps \<longrightarrow>
            update_dashboard E df trig c cs ps s e n tv
              = placeholder_bundle ''Invalid Date Range'' (Msg ''Invalid date range selected'') df)"
proof (intro conjI impI allI)
  assume h: "(df \<noteq> [] \<or> \<not> truthy_str c \<and> \<not> truthy_list cs \<and> \<not> truthy_list ps)
      \<and> (parse_date E s = None \<or> parse_date E e = None)"
  then have pr: "parsed_range E s e = None"
    using assms(2,3) by (auto simp: parsed_range_def split: option.splits)
  show "update_dashboard E df trig c cs ps s e n tv
          = placeholder_bundle ''Invalid Date Range'' (Msg ''Invalid date range selected'') df"
  proof (cases "df = []")
    case True
    then show ?thesis using assms h
      by (simp add: update_dashboard_no_reset apply_filters_empty_table)
  next
    case False
    then show ?thesis using assms(1) pr
      by (simp add: update_dashboard_no_reset apply_filters_nonempty)
  qed
next
  fix sd ed
  assume h: "df \<noteq> [] \<and> parse_date E s = Some sd \<and> parse_date E e = Some ed \<and> ed < sd"
  then have pr: "parsed_range E s e = Some (Some (sd, ed))"
    using assms(2,3) by (simp add: parsed_range_def)
  have "filter (date_pred sd ed) t = []" for t
    using h by (auto simp: date_pred_def filter_empty_conv)
  then have "fold (filter_step c cs ps (Some (sd, ed))) [ByContinent, ByCountry, ByProduct, ByDate] df = []"
    by simp
  then show "update_dashboard E df trig c cs ps s e n tv
          = placeholder_bundle ''No Data Available'' (Msg ''No data available for selected filters'') df"
    using h assms(1) pr by (simp add: update_dashboard_no_reset apply_filters_nonempty)
next
  assume "df = [] \<and> \<not> truthy_str c \<and> \<not> truthy_list cs \<and> \<not> truthy_list ps"
  then show "update_dashboard E df trig c cs ps s e n tv
          = placeholder_bundle ''Invalid Date Range'' (Msg ''Invalid date range selected'') df"
    using assms by (simp add: update_dashboard_no_reset apply_filters_empty_table)
qed

lemma example_dates [simp]:
  "min_date [europe_row] = (2024, 3, 1)" "max_date [europe_row] = (2024, 3, 1)"
  "min_date [europe_row, asia_row] = (2024, 3, 1)" "max_date [europe_row, asia_row] = (2024, 3, 2)"
  by (simp_all add: min_date_def max_date_def europe_row_def asia_row_def)

lemma example_no_parse [simp]: "to_datetime example_libs ''not a date'' = None"
  by (simp add: example_libs_def)

theorem invalid_or_reversed_range_witness:
  "update_dashboard example_libs [europe_row] None None None None
     (DateStr ''not a date'') (DateStr ''2025-01-01'') None (Some ''average'')
   = placeholder_bundle ''Invalid Date Range'' (Msg ''Invalid date range selected'') [europe_row]
   \<and> update_dashboard example_libs [europe_row] None None None None
     (DateStr ''2025-01-01'') (DateStr ''2024-01-01'') None (Some ''average'')
   = placeholder_bundle ''No Data Available'' (Msg ''No data available for selected filters'')
       [europe_row]
   \<and> update_dashboard example_libs [] None None None None
     (DateStr ''2025-01-01'') (DateStr ''2024-01-01'') None (Some ''average'')
   = placeholder_bundle ''Invalid Date Range'' (Msg ''Invalid date range selected'') []"
  using invalid_or_reversed_range[of None "DateStr ''not a date''" "DateStr ''2025-01-01''"
      "[europe_row]" None None None example_libs None "Some ''average''"]
    invalid_or_reversed_range[of None "DateStr ''2025-01-01''" "DateStr ''2024-01-01''"
      "[europe_row]" None None None example_libs None "Some ''average''"]
    invalid_or_reversed_range[of None "DateStr ''2025-01-01''" "DateStr ''2024-01-01''"
      "[]" None None None example_libs None "Some ''average''"]
  by (simp add: truthy_str_def truthy_list_def)

text \<open>
  The claim as written fails at start 2025-01-01, end 2024-01-01: the figures are titled
  "No Data Available" and the filter block ends in \<open>EmptyResult\<close>.
\<close>

theorem reversed_range_counterexample:
  "revenue_bar (update_dashboard example_libs [europe_row] None None None None
     (DateStr ''2025-01-01'') (DateStr ''2024-01-01'') None (Some ''average''))
     = Placeholder ''No Data Available''
   \<and> revenue_bar (update_dashboard example_libs [europe_row] None None None None
     (DateStr ''2025-01-01'') (DateStr ''2024-01-01'') None (Some ''average''))
     \<noteq> Placeholder ''Invalid Date Range''
   \<and> error_message (update_dashboard example_libs [europe_row] None None None None
     (DateStr ''2025-01-01'') (DateStr ''2024-01-01'') None (Some ''average''))
     = Msg ''No data available for selected filters''
   \<and> apply_filters example_libs [europe_row] None None None
     (DateStr ''2025-01-01'') (DateStr ''2024-01-01'') = EmptyResult"
  by (simp add: update_dashboard_no_reset apply_filters_nonempty parsed_range_def
      truthy_str_def truthy_list_def date_pred_def europe_row_def placeholder_bundle_def)

text \<open>
  C9 (amended). When the filter block of a cycle that is not a reset ends in
  \<open>EmptyResult\<close>, the callback returns the "No Data Available" tuple: every figure a
  placeholder of that title, no cards, rows or table, and the controls set to
  \<^verbatim>\<open>None, [], [], min_date, max_date\<close>, not to the values that were selected.
\<close>

theorem empty_result_resets_controls:
  assumes "trig \<noteq> Some ''reset-button''"
    and "apply_filters E df c cs ps s e = EmptyResult"
  shows "update_dashboard E df trig c cs ps s e n tv
           = placeholder_bundle ''No Data Available''
               (Msg ''No data available for selected filters'') df
       \<and> continent_value (update_dashboard E df trig c cs ps s e n tv) = None
       \<and> country_value (update_dashboard E df trig c cs ps s e n tv) = Some []
       \<and> product_value (update_dashboard E df trig c cs ps s e n tv) = Some []
       \<and> start_date_value (update_dashboard E df trig c cs ps s e n tv) = DateObj (min_date df)
       \<and> end_date_value (update_dashboard E df trig c cs ps s e n tv) = DateObj (max_date df)"
  using assms by (simp add: update_dashboard_no_reset placeholder_bundle_def)

lemma example_filter_asia:
  "apply_filters example_libs [europe_row] (Some ''Asia'') (Some [''Japan'']) (Some [''AI-Powered CRM''])
     (DateStr ''2024-01-01'') (DateStr ''2025-01-01'') = EmptyResult"
  by (simp add: apply_filters_nonempty parsed_range_def truthy_str_def truthy_list_def
      continent_pred_def europe_row_def)

theorem empty_result_resets_controls_witness:
  "update_dashboard example_libs [europe_row] None (Some ''Asia'') (Some [''Japan''])
      (Some [''AI-Powered CRM'']) (DateStr ''2024-01-01'') (DateStr ''2025-01-01'') None
      (Some ''average'')
     = placeholder_bundle ''No Data Available'' (Msg ''No data available for selected filters'')
         [europe_row]"
proof -
  have "(None :: string option) \<noteq> Some ''reset-button''" by simp
  from empty_result_resets_controls[OF this example_filter_asia] show ?thesis by simp
qed

text \<open>
  The claim as written fails on the specification's own scenario: with continent Asia
  selected on the single European row, the returned controls are the defaults and the
  dataset's bounds, not the selections.
\<close>

theorem empty_result_echo_counterexample:
  "revenue_bar (update_dashboard example_libs [europe_row] None (Some ''Asia'') (Some [''Japan''])
      (Some [''AI-Powered CRM'']) (DateStr ''2024-01-01'') (DateStr ''2025-01-01'') None
      (Some ''average'')) = Placeholder ''No Data Available''
   \<and> continent_value (update_dashboard example_libs [europe_row] None (Some ''Asia'') (Some [''Japan''])
      (Some [''AI-Powered CRM'']) (DateStr ''2024-01-01'') (DateStr ''2025-01-01'') None
      (Some ''average'')) \<noteq> Some ''Asia''
   \<and> country_value (update_dashboard example_libs [europe_row] None (Some ''Asia'') (Some [''Japan''])
      (Some [''AI-Powered CRM'']) (DateStr ''2024-01-01'') (DateStr ''2025-01-01'') None
      (Some ''average'')) \<noteq> Some [''Japan'']
   \<and> product_value (update_dashboard example_libs [europe_row] None (Some ''Asia'') (Some [''Japan''])
      (Some [''AI-Powered CRM'']) (DateStr ''2024-01-01'') (DateStr ''2025-01-01'') None
      (Some ''average'')) \<noteq> Some [''AI-Powered CRM'']
   \<and> start_date_value (update_dashboard example_libs [europe_row] None (Some ''Asia'') (Some [''Japan''])
      (Some [''AI-Powered CRM'']) (DateStr ''2024-01-01'') (DateStr ''2025-01-01'') None
      (Some ''average'')) = DateObj (2024, 3, 1)
   \<and> end_date_value (update_dashboard example_libs [europe_row] None (Some ''Asia'') (Some [''Japan''])
      (Some [''AI-Powered CRM'']) (DateStr ''2024-01-01'') (DateStr ''2025-01-01'') None
      (Some ''average'')) = DateObj (2024, 3, 1)"
  by (simp add: update_dashboard_no_reset example_filter_asia placeholder_bundle_def)

section \<open>Reset\<close>

text \<open>
  The figures, cards, rows and table of a cycle depend on the filter values only through
  the result of the filter block; the country and product values are only echoed.
\<close>

lemma render_echo:
  "render E t c cs ps sd ed tv
     = map_sum id (\<lambda>b. b\<lparr>country_value := cs, product_value := ps\<rparr>) (render E t c cs' ps' sd ed tv)"
  by (simp add: render_def split: sum.splits)

lemma apply_filters_unfiltered:
  assumes "truthy_date s0" "truthy_date e0"
    and "parse_date E s0 = Some lo" "parse_date E e0 = Some hi"
  shows "apply_filters E df None None None s0 e0
           = apply_filters E df None (Some []) (Some []) (DateObj lo) (DateObj hi)"
proof (cases "df = []")
  case True
  then show ?thesis using assms by (simp add: apply_filters_empty_table truthy_str_def truthy_list_def)
next
  case False
  have "parsed_range E s0 e0 = Some (Some (lo, hi))" using assms by (simp add: parsed_range_def)
  moreover have "parsed_range E (DateObj lo) (DateObj hi) = Some (Some (lo, hi))"
    by (simp add: parsed_range_def)
  ultimately show ?thesis using False
    by (simp add: apply_filters_nonempty truthy_str_def truthy_list_def)
qed

lemma placeholder_fields [simp]:
  "kpi_cards (placeholder_bundle title msg df) = []"
  "revenue_bar (placeholder_bundle title msg df) = Placeholder title"
  "request_pie (placeholder_bundle title msg df) = Placeholder title"
  "job_type_bar (placeholder_bundle title msg df) = Placeholder title"
  "affiliate_bar (placeholder_bundle title msg df) = Placeholder title"
  "revenue_map (placeholder_bundle title msg df) = Placeholder title"
  "trend_graph (placeholder_bundle title msg df) = Placeholder title"
  "filtered_data (placeholder_bundle title msg df) = []"
  "error_message (placeholder_bundle title msg df) = msg"
  "continent_value (placeholder_bundle title msg df) = None"
  "country_value (placeholder_bundle title msg df) = Some []"
  "product_value (placeholder_bundle title msg df) = Some []"
  "start_date_value (placeholder_bundle title msg df) = DateObj (min_date df)"
  "end_date_value (placeholder_bundle title msg df) = DateObj (max_date df)"
  "summary_stats_table (placeholder_bundle title msg df) = []"
  by (simp_all add: placeholder_bundle_def)

lemma update_dashboard_echo_change:
  assumes "trig \<noteq> Some ''reset-button''"
    and "apply_filters E df c cs ps s e = apply_filters E df c cs' ps' s' e'"
  shows "kpi_cards (update_dashboard E df trig c cs ps s e n tv)
           = kpi_cards (update_dashboard E df trig c cs' ps' s' e' n' tv)"
    and "revenue_bar (update_dashboard E df trig c cs ps s e n tv)
           = revenue_bar (update_dashboard E df trig c cs' ps' s' e' n' tv)"
    and "request_pie (update_dashboard E df trig c cs ps s e n tv)
           = request_pie (update_dashboard E df trig c cs' ps' s' e' n' tv)"
    and "job_type_bar (update_dashboard E df trig c cs ps s e n tv)
           = job_type_bar (update_dashboard E df trig c cs' ps' s' e' n' tv)"
    and "affiliate_bar (update_dashboard E df trig c cs ps s e n tv)
           = affiliate_bar (update_dashboard E df trig c cs' ps' s' e' n' tv)"
    and "revenue_map (update_dashboard E df trig c cs ps s e n tv)
           = revenue_map (update_dashboard E df trig c cs' ps' s' e' n' tv)"
    and "trend_graph (update_dashboard E df trig c cs ps s e n tv)
           = trend_graph (update_dashboard E df trig c cs' ps' s' e' n' tv)"
    and "filtered_data (update_dashboard E df trig c cs ps s e n tv)
           = filtered_data (update_dashboard E df trig c cs' ps' s' e' n' tv)"
    and "error_message (update_dashboard E df trig c cs ps s e n tv)
           = error_message (update_dashboard E df trig c cs' ps' s' e' n' tv)"
    and "summary_stats_table (update_dashboard E df trig c cs ps s e n tv)
           = summary_stats_table (update_dashboard E df trig c cs' ps' s' e' n' tv)"
    and "start_date_value (update_dashboard E df trig c cs ps s e n tv)
           = start_date_value (update_dashboard E df trig c cs' ps' s' e' n' tv)"
    and "end_date_value (update_dashboard E df trig c cs ps s e n tv)
           = end_date_value (update_dashboard E df trig c cs' ps' s' e' n' tv)"
  using assms
  by (auto simp: update_dashboard_no_reset render_echo[of E _ c cs ps _ _ tv cs' ps']
      split: filter_result.splits sum.splits)

lemma render_Inr_echo:
  assumes "render E t c cs ps sd ed tv = Inr b"
  shows "continent_value b = c \<and> country_value b = cs \<and> product_value b = ps
       \<and> start_date_value b = sd \<and> end_date_value b = ed"
  using assms by (auto simp: render_def split: sum.splits)

lemma apply_filters_Filtered_dates:
  assumes "apply_filters E df c cs ps (DateObj lo) (DateObj hi) = Filtered t sd ed"
  shows "sd = DateObj lo \<and> ed = DateObj hi"
proof -
  have ne: "df \<noteq> []" using assms apply_filters_empty_base by blast
  have "parsed_range E (DateObj lo) (DateObj hi) = Some (Some (lo, hi))"
    by (simp add: parsed_range_def)
  then show ?thesis using assms by (simp add: apply_filters_nonempty[OF ne] split: if_splits)
qed

lemma default_cycle_echo:
  "continent_value (update_dashboard E df None None (Some []) (Some []) (DateObj (min_date df)) (DateObj (max_date df)) n tv) = None
   \<and> country_value (update_dashboard E df None None (Some []) (Some []) (DateObj (min_date df)) (DateObj (max_date df)) n tv) = Some []
   \<and> product_value (update_dashboard E df None None (Some []) (Some []) (DateObj (min_date df)) (DateObj (max_date df)) n tv) = Some []
   \<and> start_date_value (update_dashboard E df None None (Some []) (Some []) (DateObj (min_date df)) (DateObj (max_date df)) n tv) = DateObj (min_date df)
   \<and> end_date_value (update_dashboard E df None None (Some []) (Some []) (DateObj (min_date df)) (DateObj (max_date df)) n tv) = DateObj (max_date df)"
proof (cases "apply_filters E df None (Some []) (Some []) (DateObj (min_date df)) (DateObj (max_date df))")
  case (Filtered t sd ed)
  note d = apply_filters_Filtered_dates[OF Filtered]
  show ?thesis
  proof (cases "render E t None (Some []) (Some []) sd ed tv")
    case (Inl x)
    then show ?thesis using Filtered by (simp add: update_dashboard_no_reset)
  next
    case (Inr b)
    then show ?thesis using Filtered d render_Inr_echo[OF Inr] by (simp add: update_dashboard_no_reset)
  qed
qed (simp_all add: update_dashboard_no_reset)

text \<open>
  The outputs of a cycle triggered by the reset button, whatever values it receives, are
  those of the cycle on the default values, and so those of the initial load.
\<close>

lemma reset_outputs:
  assumes "truthy_date s0" and "truthy_date e0"
    and "parse_date E s0 = Some (min_date df)" and "parse_date E e0 = Some (max_date df)"
  shows "update_dashboard E df (Some ''reset-button'') c cs ps s e n tv
           = update_dashboard E df None None (Some []) (Some []) (DateObj (min_date df))
               (DateObj (max_date df)) n (Some ''average'')
       \<and> kpi_cards (update_dashboard E df (Some ''reset-button'') c cs ps s e n tv)
           = kpi_cards (update_dashboard E df None None None None s0 e0 None (Some ''average''))
       \<and> revenue_bar (update_dashboard E df (Some ''reset-button'') c cs ps s e n tv)
           = revenue_bar (update_dashboard E df None None None None s0 e0 None (Some ''average''))
       \<and> request_pie (update_dashboard E df (Some ''reset-button'') c cs ps s e n tv)
           = request_pie (update_dashboard E df None None None None s0 e0 None (Some ''average''))
       \<and> job_type_bar (update_dashboard E df (Some ''reset-button'') c cs ps s e n tv)
           = job_type_bar (update_dashboard E df None None None None s0 e0 None (Some ''average''))
       \<and> affiliate_bar (update_dashboard E df (Some ''reset-button'') c cs ps s e n tv)
           = affiliate_bar (update_dashboard E df None None None None s0 e0 None (Some ''average''))
       \<and> revenue_map (update_dashboard E df (Some ''reset-button'') c cs ps s e n tv)
           = revenue_map (update_dashboard E df None None None None s0 e0 None (Some ''average''))
       \<and> trend_graph (update_dashboard E df (Some ''reset-button'') c cs ps s e n tv)
           = trend_graph (update_dashboard E df None None None None s0 e0 None (Some ''average''))
       \<and> summary_stats_table (update_dashboard E df (Some ''reset-button'') c cs ps s e n tv)
           = summary_stats_table (update_dashboard E df None None None None s0 e0 None (Some ''average''))
       \<and> filtered_data (update_dashboard E df (Some ''reset-button'') c cs ps s e n tv)
           = filtered_data (update_dashboard E df None None None None s0 e0 None (Some ''average''))
       \<and> error_message (update_dashboard E df (Some ''reset-button'') c cs ps s e n tv)
           = error_message (update_dashboard E df None None None None s0 e0 None (Some ''average''))
       \<and> continent_value (update_dashboard E df (Some ''reset-button'') c cs ps s e n tv) = None
       \<and> country_value (update_dashboard E df (Some ''reset-button'') c cs ps s e n tv) = Some []
       \<and> product_value (update_dashboard E df (Some ''reset-button'') c cs ps s e n tv) = Some []
       \<and> start_date_value (update_dashboard E df (Some ''reset-button'') c cs ps s e n tv)
           = DateObj (min_date df)
       \<and> end_date_value (update_dashboard E df (Some ''reset-button'') c cs ps s e n tv)
           = DateObj (max_date df)"
proof -
  let ?d = "update_dashboard E df None None (Some []) (Some []) (DateObj (min_date df))
               (DateObj (max_date df)) n (Some ''average'')"
  have r: "update_dashboard E df (Some ''reset-button'') c cs ps s e n tv = ?d"
    by (rule update_dashboard_reset)
  have nr: "(None :: string option) \<noteq> Some ''reset-button''" by simp
  have eq: "apply_filters E df None (Some []) (Some []) (DateObj (min_date df)) (DateObj (max_date df))
            = apply_filters E df None None None s0 e0"
    using apply_filters_unfiltered[OF assms] by simp
  note same = update_dashboard_echo_change[OF nr eq, of n "Some ''average''" None]
  note echo = default_cycle_echo[of E df n "Some ''average''"]
  show ?thesis unfolding r using same echo by simp
qed

lemma example_request_types [simp]:
  "request_type europe_row = ''demo''" "request_type asia_row = ''job''"
  "job_type europe_row = ''None''" "job_type asia_row = ''consulting''"
  "ts_date (timestamp europe_row) = (2024, 3, 1)" "ts_date (timestamp asia_row) = (2024, 3, 2)"
  "ts_hour (timestamp europe_row) = 10" "ts_hour (timestamp asia_row) = 15"
  by (simp_all add: europe_row_def asia_row_def)

lemma render_rows:
  assumes "render E t c cs ps sd ed tv = Inr b"
  shows "filtered_data b = set_hour_column (set_date_column t)"
  using assms by (auto simp: render_def split: sum.splits)

lemma example_world [simp]: "geo_scope_ok example_libs ''world''"
  by (simp add: example_libs_def)

lemma example_full_range:
  "apply_filters example_libs [europe_row, asia_row] None (Some []) (Some [])
     (DateObj (2024, 3, 1)) (DateObj (2024, 3, 2))
   = Filtered [europe_row, asia_row] (DateObj (2024, 3, 1)) (DateObj (2024, 3, 2))"
  by (simp add: apply_filters_nonempty parsed_range_def truthy_str_def truthy_list_def date_pred_def)

lemma example_render_ok:
  "\<exists>b. render example_libs [europe_row, asia_row] None (Some []) (Some [])
     (DateObj (2024, 3, 1)) (DateObj (2024, 3, 2)) (Some ''average'') = Inr b"
  by (simp add: render_def stats_data_def set_date_column_def set_hour_column_def
      revenue_map_fig_def map_scope_def truthy_str_def trend_fig_def trend_data_def)

lemma cycle_parts:
  "fst (cycle E df trig k) = update_dashboard E df trig (continent_ctl k) (countries_ctl k)
      (products_ctl k) (start_date_ctl k) (end_date_ctl k) (reset_clicks_ctl k) (trend_view_ctl k)"
  "snd (cycle E df trig k) = k\<lparr>continent_ctl := continent_value (fst (cycle E df trig k)),
      countries_ctl := country_value (fst (cycle E df trig k)),
      products_ctl := product_value (fst (cycle E df trig k)),
      start_date_ctl := start_date_value (fst (cycle E df trig k)),
      end_date_ctl := end_date_value (fst (cycle E df trig k))\<rparr>"
  "trend_view_ctl (snd (cycle E df trig k)) = trend_view_ctl k"
  "reset_clicks_ctl (snd (cycle E df trig k)) = reset_clicks_ctl k"
  by (simp_all add: cycle_def Let_def)

lemma reset_controls:
  "snd (cycle E df (Some ''reset-button'') k)
     = k\<lparr>continent_ctl := None, countries_ctl := Some [], products_ctl := Some [],
         start_date_ctl := DateObj (min_date df), end_date_ctl := DateObj (max_date df)\<rparr>"
  unfolding cycle_parts(2) cycle_parts(1) update_dashboard_reset
  using default_cycle_echo[of E df "reset_clicks_ctl k" "Some ''average''"] by simp

text \<open>
  C2 (amended). A cycle triggered by the reset button, whatever the controls hold,
  computes on the default values (no continent, no countries, no products, the dataset's
  date bounds, the average trend view). Its cards, figures, table, retained rows and
  message are those of the initial load (no trigger, no selections, and the date picker's
  initial dates \<open>s0\<close> and \<open>e0\<close>, which read as the dataset's bounds). The
  five control values it writes back are the defaults. The trend view is not among the
  callback's outputs: the trend-view control keeps the value it had.
\<close>

theorem reset_restores_defaults:
  assumes "truthy_date s0" and "truthy_date e0"
    and "parse_date E s0 = Some (min_date df)" and "parse_date E e0 = Some (max_date df)"
  shows "fst (cycle E df (Some ''reset-button'') k)
           = update_dashboard E df None None (Some []) (Some []) (DateObj (min_date df))
               (DateObj (max_date df)) (reset_clicks_ctl k) (Some ''average'')
       \<and> kpi_cards (fst (cycle E df (Some ''reset-button'') k))
           = kpi_cards (update_dashboard E df None None None None s0 e0 None (Some ''average''))
       \<and> revenue_bar (fst (cycle E df (Some ''reset-button'') k))
           = revenue_bar (update_dashboard E df None None None None s0 e0 None (Some ''average''))
       \<and> request_pie (fst (cycle E df (Some ''reset-button'') k))
           = request_pie (update_dashboard E df None None None None s0 e0 None (Some ''average''))
       \<and> job_type_bar (fst (cycle E df (Some ''reset-button'') k))
           = job_type_bar (update_dashboard E df None None None None s0 e0 None (Some ''average''))
       \<and> affiliate_bar (fst (cycle E df (Some ''reset-button'') k))
           = affiliate_bar (update_dashboard E df None None None None s0 e0 None (Some ''average''))
       \<and> revenue_map (fst (cycle E df (Some ''reset-button'') k))
           = revenue_map (update_dashboard E df None None None None s0 e0 None (Some ''average''))
       \<and> trend_graph (fst (cycle E df (Some ''reset-button'') k))
           = trend_graph (update_dashboard E df None None None None s0 e0 None (Some ''average''))
       \<and> summary_stats_table (fst (cycle E df (Some ''reset-button'') k))
           = summary_stats_table (update_dashboard E df None None None None s0 e0 None (Some ''average''))
       \<and> filtered_data (fst (cycle E df (Some ''reset-button'') k))
           = filtered_data (update_dashboard E df None None None None s0 e0 None (Some ''average''))
       \<and> error_message (fst (cycle E df (Some ''reset-button'') k))
           = error_message (update_dashboard E df None None None None s0 e0 None (Some ''average''))
       \<and> snd (cycle E df (Some ''reset-button'') k)
           = k\<lparr>continent_ctl := None, countries_ctl := Some [], products_ctl := Some [],
               start_date_ctl := DateObj (min_date df), end_date_ctl := DateObj (max_date df)\<rparr>
       \<and> trend_view_ctl (snd (cycle E df (Some ''reset-button'') k)) = trend_view_ctl k"
proof -
  let ?U = "update_dashboard E df (Some ''reset-button'') (continent_ctl k) (countries_ctl k)
      (products_ctl k) (start_date_ctl k) (end_date_ctl k) (reset_clicks_ctl k) (trend_view_ctl k)"
  note R = reset_outputs[OF assms, of "continent_ctl k" "countries_ctl k" "products_ctl k"
      "start_date_ctl k" "end_date_ctl k" "reset_clicks_ctl k" "trend_view_ctl k"]
  have f: "fst (cycle E df (Some ''reset-button'') k) = ?U" by (rule cycle_parts(1))
  have ctl: "snd (cycle E df (Some ''reset-button'') k)
           = k\<lparr>continent_ctl := None, countries_ctl := Some [], products_ctl := Some [],
               start_date_ctl := DateObj (min_date df), end_date_ctl := DateObj (max_date df)\<rparr>"
    unfolding cycle_parts(2) f update_dashboard_reset
    using default_cycle_echo[of E df "reset_clicks_ctl k" "Some ''average''"] by simp
  have tv: "trend_view_ctl (snd (cycle E df (Some ''reset-button'') k)) = trend_view_ctl k"
    by (rule cycle_parts(3))
  show ?thesis unfolding f using R ctl[unfolded f] tv by blast
qed

lemma example_asia_filter:
  "apply_filters example_libs [europe_row, asia_row] (Some ''Asia'') (Some []) (Some [])
     (DateObj (2024, 3, 1)) (DateObj (2024, 3, 2))
   = Filtered [asia_row] (DateObj (2024, 3, 1)) (DateObj (2024, 3, 2))"
  by (simp add: apply_filters_nonempty parsed_range_def truthy_str_def truthy_list_def date_pred_def
      continent_pred_def europe_row_def asia_row_def)

lemma example_asia_day_view:
  "render example_libs [asia_row] (Some ''Asia'') (Some []) (Some [])
     (DateObj (2024, 3, 1)) (DateObj (2024, 3, 2)) (Some ''2024-03-02'') = Inr b
   \<Longrightarrow> trend_graph b = TrendGraph (HourlyTrendsOn (2024, 3, 2))
         (map (trend_row_at (set_hour_column (set_date_column [asia_row]))) [0..<24])"
  by (auto simp: render_def stats_data_def revenue_map_fig_def map_scope_def truthy_str_def
      trend_fig_def trend_data_def set_hour_column_def set_date_column_def example_libs_def
      split: sum.splits if_splits)

lemma example_asia_day_view_ok:
  "\<exists>b. render example_libs [asia_row] (Some ''Asia'') (Some []) (Some [])
     (DateObj (2024, 3, 1)) (DateObj (2024, 3, 2)) (Some ''2024-03-02'') = Inr b"
  by (simp add: render_def stats_data_def revenue_map_fig_def map_scope_def truthy_str_def
      trend_fig_def trend_data_def set_hour_column_def set_date_column_def example_libs_def)

lemma example_reset_controls:
  "snd (cycle example_libs [europe_row, asia_row] (Some ''reset-button'') example_controls)
     = \<lparr>continent_ctl = None, countries_ctl = Some [], products_ctl = Some [],
        start_date_ctl = DateObj (2024, 3, 1), end_date_ctl = DateObj (2024, 3, 2),
        reset_clicks_ctl = Some 1, trend_view_ctl = Some ''2024-03-02''\<rparr>"
  unfolding reset_controls example_dates by (simp add: example_controls_def)

lemma example_next_cycle:
  "trend_graph (fst (cycle example_libs [europe_row, asia_row] (Some ''continent-filter'')
      \<lparr>continent_ctl = Some ''Asia'', countries_ctl = Some [], products_ctl = Some [],
        start_date_ctl = DateObj (2024, 3, 1), end_date_ctl = DateObj (2024, 3, 2),
        reset_clicks_ctl = Some 1, trend_view_ctl = Some ''2024-03-02''\<rparr>))
     = TrendGraph (HourlyTrendsOn (2024, 3, 2))
         (map (trend_row_at (set_hour_column (set_date_column [asia_row]))) [0..<24])"
proof -
  obtain b where b: "render example_libs [asia_row] (Some ''Asia'') (Some []) (Some [])
     (DateObj (2024, 3, 1)) (DateObj (2024, 3, 2)) (Some ''2024-03-02'') = Inr b"
    using example_asia_day_view_ok by (rule exE)
  have nr: "Some ''continent-filter'' \<noteq> Some ''reset-button''" by simp
  have "update_dashboard example_libs [europe_row, asia_row] (Some ''continent-filter'')
      (Some ''Asia'') (Some []) (Some []) (DateObj (2024, 3, 1)) (DateObj (2024, 3, 2)) (Some 1)
      (Some ''2024-03-02'') = b"
    by (simp only: update_dashboard_no_reset[OF nr] example_asia_filter filter_result.case b sum.case)
  then have "fst (cycle example_libs [europe_row, asia_row] (Some ''continent-filter'')
      \<lparr>continent_ctl = Some ''Asia'', countries_ctl = Some [], products_ctl = Some [],
        start_date_ctl = DateObj (2024, 3, 1), end_date_ctl = DateObj (2024, 3, 2),
        reset_clicks_ctl = Some 1, trend_view_ctl = Some ''2024-03-02''\<rparr>) = b"
    unfolding cycle_parts(1) by (simp only: controls.simps)
  then show ?thesis using example_asia_day_view[OF b] by (simp only:)
qed

theorem reset_restores_defaults_witness:
  "filtered_data (fst (cycle example_libs [europe_row, asia_row] (Some ''reset-button'')
      example_controls))
     = filtered_data (update_dashboard example_libs [europe_row, asia_row] None None None None
         (DateStr ''2024-03-01'') (DateStr ''2024-03-02'') None (Some ''average''))
   \<and> filtered_data (fst (cycle example_libs [europe_row, asia_row] (Some ''reset-button'')
      example_controls))
     = set_hour_column (set_date_column [europe_row, asia_row])
   \<and> snd (cycle example_libs [europe_row, asia_row] (Some ''reset-button'') example_controls)
     = example_controls\<lparr>continent_ctl := None, countries_ctl := Some [], products_ctl := Some [],
         start_date_ctl := DateObj (2024, 3, 1), end_date_ctl := DateObj (2024, 3, 2)\<rparr>
   \<and> trend_view_ctl (snd (cycle example_libs [europe_row, asia_row] (Some ''reset-button'')
      example_controls)) = Some ''2024-03-02''"
proof -
  obtain b where b: "render example_libs [europe_row, asia_row] None (Some []) (Some [])
     (DateObj (2024, 3, 1)) (DateObj (2024, 3, 2)) (Some ''average'') = Inr b"
    using example_render_ok by blast
  have rows: "filtered_data (update_dashboard example_libs [europe_row, asia_row] None None
      (Some []) (Some []) (DateObj (2024, 3, 1)) (DateObj (2024, 3, 2)) (Some 1) (Some ''average''))
      = set_hour_column (set_date_column [europe_row, asia_row])"
  proof -
    have nr: "(None :: string option) \<noteq> Some ''reset-button''" by simp
    have "update_dashboard example_libs [europe_row, asia_row] None None
      (Some []) (Some []) (DateObj (2024, 3, 1)) (DateObj (2024, 3, 2)) (Some 1) (Some ''average'') = b"
      by (simp only: update_dashboard_no_reset[OF nr] example_full_range filter_result.case b sum.case)
    then show ?thesis using render_rows[OF b] by simp
  qed
  have p: "parse_date example_libs (DateStr ''2024-03-01'') = Some (min_date [europe_row, asia_row])"
    "parse_date example_libs (DateStr ''2024-03-02'') = Some (max_date [europe_row, asia_row])"
    by simp_all
  have t: "truthy_date (DateStr ''2024-03-01'')" "truthy_date (DateStr ''2024-03-02'')"
    by simp_all
  note T = reset_restores_defaults[OF t p, of example_controls]
  have m: "min_date [europe_row, asia_row] = (2024, 3, 1)" "max_date [europe_row, asia_row] = (2024, 3, 2)"
    by simp_all
  have n1: "reset_clicks_ctl example_controls = Some 1" by (simp add: example_controls_def)
  have tv0: "trend_view_ctl example_controls = Some ''2024-03-02''" by (simp add: example_controls_def)
  from T have a: "filtered_data (fst (cycle example_libs [europe_row, asia_row] (Some ''reset-button'')
      example_controls))
     = filtered_data (update_dashboard example_libs [europe_row, asia_row] None None None None
         (DateStr ''2024-03-01'') (DateStr ''2024-03-02'') None (Some ''average''))"
    by blast
  from T have r: "fst (cycle example_libs [europe_row, asia_row] (Some ''reset-button'') example_controls)
     = update_dashboard example_libs [europe_row, asia_row] None None
      (Some []) (Some []) (DateObj (2024, 3, 1)) (DateObj (2024, 3, 2)) (Some 1) (Some ''average'')"
    unfolding m n1 by blast
  from T have c: "snd (cycle example_libs [europe_row, asia_row] (Some ''reset-button'') example_controls)
     = example_controls\<lparr>continent_ctl := None, countries_ctl := Some [], products_ctl := Some [],
         start_date_ctl := DateObj (2024, 3, 1), end_date_ctl := DateObj (2024, 3, 2)\<rparr>"
    unfolding m by blast
  from T have d: "trend_view_ctl (snd (cycle example_libs [europe_row, asia_row] (Some ''reset-button'')
      example_controls)) = Some ''2024-03-02''"
    unfolding tv0 by blast
  from rows r have b': "filtered_data (fst (cycle example_libs [europe_row, asia_row] (Some ''reset-button'')
      example_controls))
     = set_hour_column (set_date_column [europe_row, asia_row])"
    by (simp only:)
  from a b' c d show ?thesis by (intro conjI)
qed

text \<open>
  The claim as written fails where it lists the trend view among the values restored:
  after a reset with the trend view on 2024-03-02 the control still holds that date, and
  the next cycle, here started by selecting Asia, draws the trend of that day, not the
  average one.
\<close>

theorem reset_trend_view_counterexample:
  "trend_view_ctl (snd (cycle example_libs [europe_row, asia_row] (Some ''reset-button'')
      example_controls)) = Some ''2024-03-02''
   \<and> trend_view_ctl (snd (cycle example_libs [europe_row, asia_row] (Some ''reset-button'')
      example_controls)) \<noteq> Some ''average''
   \<and> trend_graph (fst (cycle example_libs [europe_row, asia_row] (Some ''continent-filter'')
        ((snd (cycle example_libs [europe_row, asia_row] (Some ''reset-button'') example_controls))
           \<lparr>continent_ctl := Some ''Asia''\<rparr>)))
     = TrendGraph (HourlyTrendsOn (2024, 3, 2))
         (map (trend_row_at (set_hour_column (set_date_column [asia_row]))) [0..<24])"
proof -
  have k: "(snd (cycle example_libs [europe_row, asia_row] (Some ''reset-button'') example_controls))
           \<lparr>continent_ctl := Some ''Asia''\<rparr>
     = \<lparr>continent_ctl = Some ''Asia'', countries_ctl = Some [], products_ctl = Some [],
        start_date_ctl = DateObj (2024, 3, 1), end_date_ctl = DateObj (2024, 3, 2),
        reset_clicks_ctl = Some 1, trend_view_ctl = Some ''2024-03-02''\<rparr>"
    unfolding example_reset_controls by simp
  have a: "trend_view_ctl (snd (cycle example_libs [europe_row, asia_row] (Some ''reset-button'')
      example_controls)) = Some ''2024-03-02''"
    unfolding example_reset_controls by simp
  have b: "trend_view_ctl (snd (cycle example_libs [europe_row, asia_row] (Some ''reset-button'')
      example_controls)) \<noteq> Some ''average''"
    unfolding a by simp
  from a b example_next_cycle[folded k] show ?thesis by (intro conjI)
qed

section \<open>KPIs\<close>

lemma purchases_bounds:
  assumes "\<forall>r\<in>set t. purchase_flag r = 0 \<or> purchase_flag r = 1"
  shows "0 \<le> sum_list (map purchase_flag t) \<and> sum_list (map purchase_flag t) \<le> real (length t)"
  using assms by (induction t) auto

lemma count_rows_conj_le: "count_rows (\<lambda>r. P r \<and> Q r) t \<le> count_rows P t"
  unfolding count_rows_def by (induction t) auto

lemma kpi_fields:
  "total_interactions (compute_kpis t) = length t"
  "purchases (compute_kpis t) = sum_list (map purchase_flag t)"
  "conversion_rate (compute_kpis t)
     = (if length t > 0 then sum_list (map purchase_flag t) / real (length t) * 100 else 0)"
  "demo_count (compute_kpis t) = count_rows (\<lambda>r. request_type r = ''demo'') t"
  "demo_purchases (compute_kpis t)
     = count_rows (\<lambda>r. request_type r = ''demo'' \<and> purchase_flag r = 1) t"
  "demo_rate (compute_kpis t)
     = (if count_rows (\<lambda>r. request_type r = ''demo'') t > 0
        then real (count_rows (\<lambda>r. request_type r = ''demo'' \<and> purchase_flag r = 1) t)
               / real (count_rows (\<lambda>r. request_type r = ''demo'') t) * 100
        else 0)"
  "jobs_placed (compute_kpis t) = count_rows (\<lambda>r. job_type r \<noteq> ''None'') t"
  "ai_assist_requests (compute_kpis t) = count_rows (\<lambda>r. request_type r = ''ai_assist'') t"
  "promo_requests (compute_kpis t) = count_rows (\<lambda>r. request_type r = ''promo'') t"
  by (simp_all add: compute_kpis_def Let_def)

lemma ratio_percent_bounds:
  fixes p n :: real
  assumes "0 \<le> p" "p \<le> n" "0 < n"
  shows "0 \<le> p / n * 100 \<and> p / n * 100 \<le> 100"
  using assms by (simp add: field_simps)

text \<open>
  C5 (amended). On a table whose purchase flags are 0 or 1, both rates lie between 0
  and 100, and a rate is 0 whenever its denominator is 0. The converse does not hold: a
  rate is 0 exactly when its numerator (the purchases, the demo purchases) is 0.
\<close>

theorem kpi_rates_bounded:
  assumes "\<forall>r\<in>set t. purchase_flag r = 0 \<or> purchase_flag r = 1"
  shows "0 \<le> conversion_rate (compute_kpis t) \<and> conversion_rate (compute_kpis t) \<le> 100
       \<and> 0 \<le> demo_rate (compute_kpis t) \<and> demo_rate (compute_kpis t) \<le> 100
       \<and> (total_interactions (compute_kpis t) = 0 \<longrightarrow> conversion_rate (compute_kpis t) = 0)
       \<and> (demo_count (compute_kpis t) = 0 \<longrightarrow> demo_rate (compute_kpis t) = 0)
       \<and> (conversion_rate (compute_kpis t) = 0 \<longleftrightarrow> purchases (compute_kpis t) = 0)
       \<and> (demo_rate (compute_kpis t) = 0 \<longleftrightarrow> demo_purchases (compute_kpis t) = 0)"
proof -
  let ?p = "sum_list (map purchase_flag t)"
  let ?d = "count_rows (\<lambda>r. request_type r = ''demo'') t"
  let ?dp = "count_rows (\<lambda>r. request_type r = ''demo'' \<and> purchase_flag r = 1) t"
  note pb = purchases_bounds[OF assms]
  have dle: "?dp \<le> ?d" by (rule count_rows_conj_le)
  have c: "0 \<le> conversion_rate (compute_kpis t) \<and> conversion_rate (compute_kpis t) \<le> 100"
    using pb ratio_percent_bounds[of ?p "real (length t)"] by (cases "t = []") (simp_all add: kpi_fields)
  have d: "0 \<le> demo_rate (compute_kpis t) \<and> demo_rate (compute_kpis t) \<le> 100"
    using dle ratio_percent_bounds[of "real ?dp" "real ?d"] by (cases "?d = 0") (simp_all add: kpi_fields)
  have c0: "total_interactions (compute_kpis t) = 0 \<longrightarrow> conversion_rate (compute_kpis t) = 0"
    by (simp add: kpi_fields)
  have d0: "demo_count (compute_kpis t) = 0 \<longrightarrow> demo_rate (compute_kpis t) = 0"
    by (simp add: kpi_fields)
  have ci: "conversion_rate (compute_kpis t) = 0 \<longleftrightarrow> purchases (compute_kpis t) = 0"
    by (cases "t = []") (simp_all add: kpi_fields)
  have di: "demo_rate (compute_kpis t) = 0 \<longleftrightarrow> demo_purchases (compute_kpis t) = 0"
    using dle by (cases "?d = 0") (simp_all add: kpi_fields)
  from c d c0 d0 ci di show ?thesis by blast
qed

theorem kpi_rates_bounded_witness:
  "conversion_rate (compute_kpis [europe_row, asia_row]) = 50
   \<and> demo_rate (compute_kpis [europe_row, asia_row]) = 100
   \<and> 0 \<le> conversion_rate (compute_kpis [europe_row, asia_row])
   \<and> conversion_rate (compute_kpis [europe_row, asia_row]) \<le> 100"
  using kpi_rates_bounded[of "[europe_row, asia_row]"]
  by (simp add: kpi_fields count_rows_def europe_row_def asia_row_def)

text \<open>
  The claim as written fails on one demo row that was not purchased: both denominators
  are 1 and both rates are 0.
\<close>

theorem zero_rate_counterexample:
  "purchase_flag (europe_row\<lparr>purchase_flag := 0\<rparr>) = 0
   \<and> total_interactions (compute_kpis [europe_row\<lparr>purchase_flag := 0\<rparr>]) = 1
   \<and> conversion_rate (compute_kpis [europe_row\<lparr>purchase_flag := 0\<rparr>]) = 0
   \<and> demo_count (compute_kpis [europe_row\<lparr>purchase_flag := 0\<rparr>]) = 1
   \<and> demo_rate (compute_kpis [europe_row\<lparr>purchase_flag := 0\<rparr>]) = 0"
  by (simp add: kpi_fields count_rows_def europe_row_def)

section \<open>Hourly trend\<close>

text \<open>Counting per hour and adding up the hours counts every row with an hour below the bound.\<close>

lemma count_rows_hours:
  "(\<Sum>h\<leftarrow>[0..<n]. real (count_rows (\<lambda>r. f r = Some h \<and> P r) t))
     = real (count_rows (\<lambda>r. (\<exists>h<n. f r = Some h) \<and> P r) t)"
proof (induction n)
  case 0
  then show ?case by (simp add: count_rows_def)
next
  case (Suc n)
  have "count_rows (\<lambda>r. (\<exists>h<Suc n. f r = Some h) \<and> P r) t
      = count_rows (\<lambda>r. (\<exists>h<n. f r = Some h) \<and> P r) t + count_rows (\<lambda>r. f r = Some n \<and> P r) t"
    unfolding count_rows_def
    by (induction t) (auto simp: less_Suc_eq)
  then show ?case using Suc by simp
qed

lemma hourly_count_sum:
  assumes "\<forall>r\<in>set t. \<exists>h<24. hour r = Some h"
  shows "(\<Sum>h\<leftarrow>[0..<24]. hourly_count P t h) = real (count_rows P t)"
proof -
  have "count_rows (\<lambda>r. (\<exists>h<24. hour r = Some h) \<and> P r) t = count_rows P t"
    unfolding count_rows_def using assms by (intro arg_cong[where f=length] filter_cong) auto
  then show ?thesis unfolding hourly_count_def using count_rows_hours[of "hour" P t 24] by simp
qed

lemma get_hourly_eq: "get_hourly c t h = hourly_count (\<lambda>r. request_type r = c) t h"
  by (auto simp: get_hourly_def hourly_count_def count_rows_def filter_empty_conv)

lemma count_rows_map: "count_rows P (map g t) = count_rows (\<lambda>r. P (g r)) t"
  unfolding count_rows_def by (induction t) auto

lemma render_Inr_parts:
  assumes "render E t c cs ps sd ed tv = Inr b"
  shows "\<exists>st fm. stats_data (set_date_column t) = Inr st
           \<and> revenue_map_fig E c (set_date_column t) = Inr fm
           \<and> trend_fig E tv (set_hour_column (set_date_column t)) = Inr (trend_graph b)
           \<and> summary_stats_table b = map (round_row E) (summary_stats st)
           \<and> filtered_data b = set_hour_column (set_date_column t)
           \<and> kpi_cards b = make_kpi_cards (compute_kpis t)"
  using assms by (auto simp: render_def split: sum.splits)

lemma columns_request_type [simp]:
  "map request_type (set_date_column t) = map request_type t"
  "map request_type (set_hour_column t) = map request_type t"
  by (simp_all add: set_date_column_def set_hour_column_def)

lemma stats_data_Inr_no_clash:
  assumes "stats_data u = Inr st"
  shows "''date'' \<notin> set (map request_type u) \<and> ''job_placements'' \<notin> set (map request_type u)"
  using assms by (auto simp: stats_data_def split: if_splits)

lemma trend_fig_Inr:
  assumes "trend_fig E tv u = Inr f"
  shows "\<exists>title u'. f = TrendGraph title (map (trend_row_at u') [0..<24])
           \<and> set (map request_type u') \<subseteq> set (map request_type u)
           \<and> (tv = Some ''average'' \<longrightarrow> title = AverageHourlyTrends \<and> u' = u)"
proof (cases "tv = Some ''average''")
  case True
  then show ?thesis using assms
    by (auto simp: trend_fig_def trend_data_def split: sum.splits if_splits)
next
  case False
  then obtain s d where "tv = Some s" "to_datetime E s = Some d"
     and "trend_data (filter (\<lambda>r. ts_date (timestamp r) = d) u)
            = Inr (map (trend_row_at (filter (\<lambda>r. ts_date (timestamp r) = d) u)) [0..<24])"
     and "f = TrendGraph (HourlyTrendsOn d) (map (trend_row_at (filter (\<lambda>r. ts_date (timestamp r) = d) u)) [0..<24])"
    using assms
    by (auto simp: trend_fig_def trend_data_def split: sum.splits if_splits option.splits)
  then show ?thesis using False
    by (intro exI[of _ "HourlyTrendsOn d"] exI[of _ "filter (\<lambda>r. ts_date (timestamp r) = d) u"]) auto
qed

lemma trend_rows_shape:
  "length (map (trend_row_at u) [0..<24]) = 24"
  "map tr_hour (map (trend_row_at u) [0..<24]) = [0..<24]"
  by (simp_all add: trend_row_at_def comp_def)

lemma trend_rows_nonneg:
  assumes "x \<in> set (map (trend_row_at u) [0..<24])"
  shows "0 \<le> tr_promo x \<and> 0 \<le> tr_demo x \<and> 0 \<le> tr_ai_assist x \<and> 0 \<le> tr_job_placements x"
  using assms by (auto simp: trend_row_at_def get_hourly_def hourly_count_def)

lemma trend_rows_sums:
  assumes "\<forall>r\<in>set u. \<exists>h<24. hour r = Some h" and "''job_placements'' \<notin> set (map request_type u)"
  shows "sum_list (map tr_promo (map (trend_row_at u) [0..<24])) = real (count_rows (\<lambda>r. request_type r = ''promo'') u)"
    and "sum_list (map tr_demo (map (trend_row_at u) [0..<24])) = real (count_rows (\<lambda>r. request_type r = ''demo'') u)"
    and "sum_list (map tr_ai_assist (map (trend_row_at u) [0..<24])) = real (count_rows (\<lambda>r. request_type r = ''ai_assist'') u)"
    and "sum_list (map tr_job_placements (map (trend_row_at u) [0..<24])) = real (count_rows (\<lambda>r. job_type r \<noteq> ''None'') u)"
proof -
  have a: "map tr_promo (map (trend_row_at u) [0..<24]) = map (hourly_count (\<lambda>r. request_type r = ''promo'') u) [0..<24]"
    by (simp add: trend_row_at_def get_hourly_eq comp_def)
  have b: "map tr_demo (map (trend_row_at u) [0..<24]) = map (hourly_count (\<lambda>r. request_type r = ''demo'') u) [0..<24]"
    by (simp add: trend_row_at_def get_hourly_eq comp_def)
  have c: "map tr_ai_assist (map (trend_row_at u) [0..<24]) = map (hourly_count (\<lambda>r. request_type r = ''ai_assist'') u) [0..<24]"
    by (simp add: trend_row_at_def get_hourly_eq comp_def)
  have d: "map tr_job_placements (map (trend_row_at u) [0..<24]) = map (hourly_count (\<lambda>r. job_type r \<noteq> ''None'') u) [0..<24]"
    using assms(2) by (simp add: trend_row_at_def comp_def)
  show "sum_list (map tr_promo (map (trend_row_at u) [0..<24])) = real (count_rows (\<lambda>r. request_type r = ''promo'') u)"
    unfolding a by (rule hourly_count_sum[OF assms(1)])
  show "sum_list (map tr_demo (map (trend_row_at u) [0..<24])) = real (count_rows (\<lambda>r. request_type r = ''demo'') u)"
    unfolding b by (rule hourly_count_sum[OF assms(1)])
  show "sum_list (map tr_ai_assist (map (trend_row_at u) [0..<24])) = real (count_rows (\<lambda>r. request_type r = ''ai_assist'') u)"
    unfolding c by (rule hourly_count_sum[OF assms(1)])
  show "sum_list (map tr_job_placements (map (trend_row_at u) [0..<24])) = real (count_rows (\<lambda>r. job_type r \<noteq> ''None'') u)"
    unfolding d by (rule hourly_count_sum[OF assms(1)])
qed

lemma count_rows_columns:
  "count_rows (\<lambda>r. request_type r = c) (set_hour_column (set_date_column t)) = count_rows (\<lambda>r. request_type r = c) t"
  "count_rows (\<lambda>r. job_type r \<noteq> ''None'') (set_hour_column (set_date_column t)) = count_rows (\<lambda>r. job_type r \<noteq> ''None'') t"
  by (simp_all add: set_hour_column_def set_date_column_def count_rows_map)

lemma hour_column_valid:
  assumes "\<forall>r\<in>set t. ts_hour (timestamp r) < 24"
  shows "\<forall>r\<in>set (set_hour_column (set_date_column t)). \<exists>h<24. hour r = Some h"
  using assms by (auto simp: set_hour_column_def set_date_column_def)

lemma render_succeeds:
  assumes "set (map request_type t) \<inter> {''date'', ''job_placements'', ''hour''} = {}"
    and "geo_scope_ok E (map_scope E c)"
  shows "\<exists>b. render E t c cs ps sd ed (Some ''average'') = Inr b"
proof -
  have n: "''date'' \<notin> set (map request_type t)" "''job_placements'' \<notin> set (map request_type t)"
    "''hour'' \<notin> set (map request_type t)"
    using assms(1) by auto
  have s: "\<exists>st. stats_data (set_date_column t) = Inr st"
    using n by (simp add: stats_data_def)
  have m: "\<exists>fm. revenue_map_fig E c (set_date_column t) = Inr fm"
    using assms(2) by (simp add: revenue_map_fig_def)
  have f: "\<exists>ft. trend_fig E (Some ''average'') (set_hour_column (set_date_column t)) = Inr ft"
    using n by (simp add: trend_fig_def trend_data_def)
  from s m f show ?thesis by (auto simp: render_def)
qed

lemma render_trend_parts:
  assumes r: "render E t c cs ps sd ed tv = Inr b"
  shows "\<exists>st. stats_data (set_date_column t) = Inr st
    \<and> trend_fig E tv (set_hour_column (set_date_column t)) = Inr (trend_graph b)"
  using render_Inr_parts[OF r] by blast

lemma render_no_job_clash:
  assumes st: "stats_data (set_date_column t) = Inr st"
  shows "''job_placements'' \<notin> set (map request_type (set_hour_column (set_date_column t)))"
  using stats_data_Inr_no_clash[OF st] by simp

lemma trend_fig_rows:
  assumes tf: "trend_fig E tv u = Inr g"
  shows "\<exists>title u'. g = TrendGraph title (map (trend_row_at u') [0..<24])
     \<and> (tv = Some ''average'' \<longrightarrow> title = AverageHourlyTrends \<and> u' = u)"
  using trend_fig_Inr[OF tf] by blast

lemma average_sums:
  assumes v: "\<forall>r\<in>set t. ts_hour (timestamp r) < 24"
    and nj: "''job_placements'' \<notin> set (map request_type (set_hour_column (set_date_column t)))"
  shows "sum_list (map tr_promo (map (trend_row_at (set_hour_column (set_date_column t))) [0..<24])) = real (promo_requests (compute_kpis t))
       \<and> sum_list (map tr_demo (map (trend_row_at (set_hour_column (set_date_column t))) [0..<24])) = real (demo_count (compute_kpis t))
       \<and> sum_list (map tr_ai_assist (map (trend_row_at (set_hour_column (set_date_column t))) [0..<24])) = real (ai_assist_requests (compute_kpis t))
       \<and> sum_list (map tr_job_placements (map (trend_row_at (set_hour_column (set_date_column t))) [0..<24])) = real (jobs_placed (compute_kpis t))"
proof -
  note s = trend_rows_sums[OF hour_column_valid[OF v] nj]
  show ?thesis
    unfolding kpi_fields(4,7,8,9) s count_rows_columns by simp
qed

lemma trend_of_render:
  assumes r: "render E t c cs ps sd ed tv = Inr b"
  shows "\<exists>title rows. trend_graph b = TrendGraph title rows
           \<and> length rows = 24 \<and> map tr_hour rows = [0..<24]
           \<and> (\<forall>x\<in>set rows. 0 \<le> tr_promo x \<and> 0 \<le> tr_demo x \<and> 0 \<le> tr_ai_assist x
                  \<and> 0 \<le> tr_job_placements x)
           \<and> (tv = Some ''average'' \<and> (\<forall>r\<in>set t. ts_hour (timestamp r) < 24) \<longrightarrow>
                title = AverageHourlyTrends
                \<and> sum_list (map tr_promo rows) = real (promo_requests (compute_kpis t))
                \<and> sum_list (map tr_demo rows) = real (demo_count (compute_kpis t))
                \<and> sum_list (map tr_ai_assist rows) = real (ai_assist_requests (compute_kpis t))
                \<and> sum_list (map tr_job_placements rows) = real (jobs_placed (compute_kpis t)))"
proof -
  let ?u = "set_hour_column (set_date_column t)"
  from render_trend_parts[OF r] obtain st where st: "stats_data (set_date_column t) = Inr st"
    and tf: "trend_fig E tv ?u = Inr (trend_graph b)"
    by blast
  note nj = render_no_job_clash[OF st]
  from trend_fig_rows[OF tf] obtain title u' where
    g: "trend_graph b = TrendGraph title (map (trend_row_at u') [0..<24])"
    and av: "tv = Some ''average'' \<longrightarrow> title = AverageHourlyTrends \<and> u' = ?u"
    by blast
  have nonneg: "\<forall>x\<in>set (map (trend_row_at u') [0..<24]). 0 \<le> tr_promo x \<and> 0 \<le> tr_demo x
            \<and> 0 \<le> tr_ai_assist x \<and> 0 \<le> tr_job_placements x"
    using trend_rows_nonneg[of _ u'] by blast
  have sums: "tv = Some ''average'' \<and> (\<forall>r\<in>set t. ts_hour (timestamp r) < 24) \<longrightarrow>
                title = AverageHourlyTrends
                \<and> sum_list (map tr_promo (map (trend_row_at u') [0..<24])) = real (promo_requests (compute_kpis t))
                \<and> sum_list (map tr_demo (map (trend_row_at u') [0..<24])) = real (demo_count (compute_kpis t))
                \<and> sum_list (map tr_ai_assist (map (trend_row_at u') [0..<24])) = real (ai_assist_requests (compute_kpis t))
                \<and> sum_list (map tr_job_placements (map (trend_row_at u') [0..<24])) = real (jobs_placed (compute_kpis t))"
  proof
    assume h: "tv = Some ''average'' \<and> (\<forall>r\<in>set t. ts_hour (timestamp r) < 24)"
    with av have u: "u' = ?u" and ti: "title = AverageHourlyTrends" by simp_all
    from h have v: "\<forall>r\<in>set t. ts_hour (timestamp r) < 24" by (rule conjunct2)
    from ti average_sums[OF v nj] show "title = AverageHourlyTrends
                \<and> sum_list (map tr_promo (map (trend_row_at u') [0..<24])) = real (promo_requests (compute_kpis t))
                \<and> sum_list (map tr_demo (map (trend_row_at u') [0..<24])) = real (demo_count (compute_kpis t))
                \<and> sum_list (map tr_ai_assist (map (trend_row_at u') [0..<24])) = real (ai_assist_requests (compute_kpis t))
                \<and> sum_list (map tr_job_placements (map (trend_row_at u') [0..<24])) = real (jobs_placed (compute_kpis t))"
      unfolding u by (rule conjI)
  qed
  from g trend_rows_shape(1)[of u'] trend_rows_shape(2)[of u'] nonneg sums
  show ?thesis by (intro exI conjI)
qed

lemma trend_row_counts:
  assumes "''job_placements'' \<notin> set (map request_type u)"
  shows "trend_row_at (set_hour_column (set_date_column u)) h =
      \<lparr>tr_hour = h,
        tr_promo = real (count_rows (\<lambda>r. ts_hour (timestamp r) = h \<and> request_type r = ''promo'') u),
        tr_demo = real (count_rows (\<lambda>r. ts_hour (timestamp r) = h \<and> request_type r = ''demo'') u),
        tr_ai_assist = real (count_rows (\<lambda>r. ts_hour (timestamp r) = h \<and> request_type r = ''ai_assist'') u),
        tr_job_placements = real (count_rows (\<lambda>r. ts_hour (timestamp r) = h \<and> job_type r \<noteq> ''None'') u)\<rparr>"
  using assms
  by (simp add: trend_row_at_def get_hourly_eq hourly_count_def set_hour_column_def
      set_date_column_def count_rows_map comp_def)

lemma trend_rows_counts:
  assumes "''job_placements'' \<notin> set (map request_type u)"
  shows "map (trend_row_at (set_hour_column (set_date_column u))) [0..<24] =
      (map (\<lambda>h. \<lparr>tr_hour = h,
                tr_promo = real (count_rows (\<lambda>r. ts_hour (timestamp r) = h \<and> request_type r = ''promo'') u),
                tr_demo = real (count_rows (\<lambda>r. ts_hour (timestamp r) = h \<and> request_type r = ''demo'') u),
                tr_ai_assist = real (count_rows (\<lambda>r. ts_hour (timestamp r) = h \<and> request_type r = ''ai_assist'') u),
                tr_job_placements = real (count_rows (\<lambda>r. ts_hour (timestamp r) = h \<and> job_type r \<noteq> ''None'') u)\<rparr>)
              [0..<24])"
  unfolding trend_row_counts[OF assms] ..

lemma day_rows_columns:
  "filter (\<lambda>r. ts_date (timestamp r) = d) (set_hour_column (set_date_column t))
     = set_hour_column (set_date_column (filter (\<lambda>r. ts_date (timestamp r) = d) t))"
  by (simp add: set_hour_column_def set_date_column_def filter_map comp_def)

lemma trend_fig_views:
  assumes "trend_fig E tv v = Inr g"
  shows "(tv = Some ''average'' \<longrightarrow> g = TrendGraph AverageHourlyTrends (map (trend_row_at v) [0..<24]))
     \<and> (tv \<noteq> Some ''average'' \<longrightarrow>
          (\<exists>s d. tv = Some s \<and> to_datetime E s = Some d
             \<and> g = TrendGraph (HourlyTrendsOn d)
                   (map (trend_row_at (filter (\<lambda>r. ts_date (timestamp r) = d) v)) [0..<24])))"
  using assms
  by (auto simp: trend_fig_def trend_data_def split: sum.splits if_splits option.splits)

lemma trend_counts_of_render:
  assumes r: "render E t c cs ps sd ed tv = Inr b"
  shows "\<exists>title u. trend_graph b = TrendGraph title
            (map (\<lambda>h. \<lparr>tr_hour = h,
                tr_promo = real (count_rows (\<lambda>r. ts_hour (timestamp r) = h \<and> request_type r = ''promo'') u),
                tr_demo = real (count_rows (\<lambda>r. ts_hour (timestamp r) = h \<and> request_type r = ''demo'') u),
                tr_ai_assist = real (count_rows (\<lambda>r. ts_hour (timestamp r) = h \<and> request_type r = ''ai_assist'') u),
                tr_job_placements = real (count_rows (\<lambda>r. ts_hour (timestamp r) = h \<and> job_type r \<noteq> ''None'') u)\<rparr>)
              [0..<24])
           \<and> (tv = Some ''average'' \<longrightarrow> title = AverageHourlyTrends \<and> u = t)
           \<and> (tv \<noteq> Some ''average'' \<longrightarrow>
                (\<exists>s d. tv = Some s \<and> to_datetime E s = Some d \<and> title = HourlyTrendsOn d
                   \<and> u = filter (\<lambda>r. ts_date (timestamp r) = d) t))"
proof -
  let ?v = "set_hour_column (set_date_column t)"
  from render_trend_parts[OF r] obtain st where st: "stats_data (set_date_column t) = Inr st"
    and tf: "trend_fig E tv ?v = Inr (trend_graph b)"
    by (elim exE conjE)
  have nj: "''job_placements'' \<notin> set (map request_type t)"
    using stats_data_Inr_no_clash[OF st] by simp
  note V = trend_fig_views[OF tf]
  show ?thesis
  proof (cases "tv = Some ''average''")
    case True
    from V True have "trend_graph b = TrendGraph AverageHourlyTrends (map (trend_row_at ?v) [0..<24])"
      by simp
    then have "trend_graph b = TrendGraph AverageHourlyTrends
            (map (\<lambda>h. \<lparr>tr_hour = h,
                tr_promo = real (count_rows (\<lambda>r. ts_hour (timestamp r) = h \<and> request_type r = ''promo'') t),
                tr_demo = real (count_rows (\<lambda>r. ts_hour (timestamp r) = h \<and> request_type r = ''demo'') t),
                tr_ai_assist = real (count_rows (\<lambda>r. ts_hour (timestamp r) = h \<and> request_type r = ''ai_assist'') t),
                tr_job_placements = real (count_rows (\<lambda>r. ts_hour (timestamp r) = h \<and> job_type r \<noteq> ''None'') t)\<rparr>)
              [0..<24])"
      unfolding trend_rows_counts[OF nj] .
    then show ?thesis using True
      by (intro exI[of _ AverageHourlyTrends] exI[of _ t]) simp
  next
    case False
    with V obtain s d where tv: "tv = Some s" and pd: "to_datetime E s = Some d"
      and g: "trend_graph b = TrendGraph (HourlyTrendsOn d)
                (map (trend_row_at (filter (\<lambda>r. ts_date (timestamp r) = d) ?v)) [0..<24])"
      by blast
    let ?u = "filter (\<lambda>r. ts_date (timestamp r) = d) t"
    have nj': "''job_placements'' \<notin> set (map request_type ?u)" using nj by auto
    have G: "trend_graph b = TrendGraph (HourlyTrendsOn d)
            (map (\<lambda>h. \<lparr>tr_hour = h,
                tr_promo = real (count_rows (\<lambda>r. ts_hour (timestamp r) = h \<and> request_type r = ''promo'') ?u),
                tr_demo = real (count_rows (\<lambda>r. ts_hour (timestamp r) = h \<and> request_type r = ''demo'') ?u),
                tr_ai_assist = real (count_rows (\<lambda>r. ts_hour (timestamp r) = h \<and> request_type r = ''ai_assist'') ?u),
                tr_job_placements = real (count_rows (\<lambda>r. ts_hour (timestamp r) = h \<and> job_type r \<noteq> ''None'') ?u)\<rparr>)
              [0..<24])"
      using g unfolding day_rows_columns trend_rows_counts[OF nj'] .
    have v1: "tv = Some ''average'' \<longrightarrow> HourlyTrendsOn d = AverageHourlyTrends \<and> ?u = t"
      using False by (intro impI) (elim notE)
    have "\<exists>s' d'. tv = Some s' \<and> to_datetime E s' = Some d' \<and> HourlyTrendsOn d = HourlyTrendsOn d'
                   \<and> ?u = filter (\<lambda>r. ts_date (timestamp r) = d') t"
      using tv pd by (intro exI[of _ s] exI[of _ d] conjI refl)
    then have v2: "tv \<noteq> Some ''average'' \<longrightarrow>
                (\<exists>s' d'. tv = Some s' \<and> to_datetime E s' = Some d' \<and> HourlyTrendsOn d = HourlyTrendsOn d'
                   \<and> ?u = filter (\<lambda>r. ts_date (timestamp r) = d') t)"
      by (rule impI)
    from G v1 v2 show ?thesis
      by (intro exI[of _ "HourlyTrendsOn d"] exI[of _ ?u] conjI)
  qed
qed

text \<open>
  C6 (amended). The aggregations complete in the average view whenever no request type
  is called \<^verbatim>\<open>date\<close>, \<^verbatim>\<open>job_placements\<close> or \<^verbatim>\<open>hour\<close> and plotly knows the map
  scope. Whenever they complete, in either view, the trend figure has exactly 24 rows,
  for the hours 0 to 23 in order; the row of an hour holds, for each of the four series,
  the number of rows of that hour and of the series' kind (request type promo, demo or
  ai_assist; a job type other than None) in the filtered table, or, in the view of one
  day, among its rows of that day, so it is 0 for an hour without such rows, and no
  count is negative. In the average view, for timestamps whose hour is below 24, each
  of the four series adds up to the matching count over the filtered table: promo to
  \<open>promo_requests\<close>, demo to \<open>demo_count\<close>, ai_assist to \<open>ai_assist_requests\<close>, job
  placements to \<open>jobs_placed\<close>.
\<close>

theorem hourly_trend_series:
  "(set (map request_type t) \<inter> {''date'', ''job_placements'', ''hour''} = {}
      \<and> geo_scope_ok E (map_scope E c)
      \<longrightarrow> (\<exists>b. render E t c cs ps sd ed (Some ''average'') = Inr b))
   \<and> (\<forall>b. render E t c cs ps sd ed tv = Inr b \<longrightarrow>
        (\<exists>title u rows. trend_graph b = TrendGraph title rows
           \<and> rows = (map (\<lambda>h. \<lparr>tr_hour = h,
                tr_promo = real (count_rows (\<lambda>r. ts_hour (timestamp r) = h \<and> request_type r = ''promo'') u),
                tr_demo = real (count_rows (\<lambda>r. ts_hour (timestamp r) = h \<and> request_type r = ''demo'') u),
                tr_ai_assist = real (count_rows (\<lambda>r. ts_hour (timestamp r) = h \<and> request_type r = ''ai_assist'') u),
                tr_job_placements = real (count_rows (\<lambda>r. ts_hour (timestamp r) = h \<and> job_type r \<noteq> ''None'') u)\<rparr>)
              [0..<24])
           \<and> (tv = Some ''average'' \<longrightarrow> title = AverageHourlyTrends \<and> u = t)
           \<and> (tv \<noteq> Some ''average'' \<longrightarrow>
                (\<exists>s d. tv = Some s \<and> to_datetime E s = Some d \<and> title = HourlyTrendsOn d
                   \<and> u = filter (\<lambda>r. ts_date (timestamp r) = d) t))
           \<and> length rows = 24 \<and> map tr_hour rows = [0..<24]
           \<and> (\<forall>x\<in>set rows. 0 \<le> tr_promo x \<and> 0 \<le> tr_demo x \<and> 0 \<le> tr_ai_assist x
                  \<and> 0 \<le> tr_job_placements x)
           \<and> (tv = Some ''average'' \<and> (\<forall>r\<in>set t. ts_hour (timestamp r) < 24) \<longrightarrow>
                sum_list (map tr_promo rows) = real (promo_requests (compute_kpis t))
                \<and> sum_list (map tr_demo rows) = real (demo_count (compute_kpis t))
                \<and> sum_list (map tr_ai_assist rows) = real (ai_assist_requests (compute_kpis t))
                \<and> sum_list (map tr_job_placements rows) = real (jobs_placed (compute_kpis t)))))"
proof (rule conjI)
  show "set (map request_type t) \<inter> {''date'', ''job_placements'', ''hour''} = {}
      \<and> geo_scope_ok E (map_scope E c)
      \<longrightarrow> (\<exists>b. render E t c cs ps sd ed (Some ''average'') = Inr b)"
    using render_succeeds[of t E c cs ps sd ed] by (intro impI) (elim conjE)
next
  show "\<forall>b. render E t c cs ps sd ed tv = Inr b \<longrightarrow>
        (\<exists>title u rows. trend_graph b = TrendGraph title rows
           \<and> rows = (map (\<lambda>h. \<lparr>tr_hour = h,
                tr_promo = real (count_rows (\<lambda>r. ts_hour (timestamp r) = h \<and> request_type r = ''promo'') u),
                tr_demo = real (count_rows (\<lambda>r. ts_hour (timestamp r) = h \<and> request_type r = ''demo'') u),
                tr_ai_assist = real (count_rows (\<lambda>r. ts_hour (timestamp r) = h \<and> request_type r = ''ai_assist'') u),
                tr_job_placements = real (count_rows (\<lambda>r. ts_hour (timestamp r) = h \<and> job_type r \<noteq> ''None'') u)\<rparr>)
              [0..<24])
           \<and> (tv = Some ''average'' \<longrightarrow> title = AverageHourlyTrends \<and> u = t)
           \<and> (tv \<noteq> Some ''average'' \<longrightarrow>
                (\<exists>s d. tv = Some s \<and> to_datetime E s = Some d \<and> title = HourlyTrendsOn d
                   \<and> u = filter (\<lambda>r. ts_date (timestamp r) = d) t))
           \<and> length rows = 24 \<and> map tr_hour rows = [0..<24]
           \<and> (\<forall>x\<in>set rows. 0 \<le> tr_promo x \<and> 0 \<le> tr_demo x \<and> 0 \<le> tr_ai_assist x
                  \<and> 0 \<le> tr_job_placements x)
           \<and> (tv = Some ''average'' \<and> (\<forall>r\<in>set t. ts_hour (timestamp r) < 24) \<longrightarrow>
                sum_list (map tr_promo rows) = real (promo_requests (compute_kpis t))
                \<and> sum_list (map tr_demo rows) = real (demo_count (compute_kpis t))
                \<and> sum_list (map tr_ai_assist rows) = real (ai_assist_requests (compute_kpis t))
                \<and> sum_list (map tr_job_placements rows) = real (jobs_placed (compute_kpis t))))"
  proof (intro allI impI)
    fix b
    assume r: "render E t c cs ps sd ed tv = Inr b"
    from trend_counts_of_render[OF r] obtain title u where
      g: "trend_graph b = TrendGraph title
            (map (\<lambda>h. \<lparr>tr_hour = h,
                tr_promo = real (count_rows (\<lambda>r. ts_hour (timestamp r) = h \<and> request_type r = ''promo'') u),
                tr_demo = real (count_rows (\<lambda>r. ts_hour (timestamp r) = h \<and> request_type r = ''demo'') u),
                tr_ai_assist = real (count_rows (\<lambda>r. ts_hour (timestamp r) = h \<and> request_type r = ''ai_assist'') u),
                tr_job_placements = real (count_rows (\<lambda>r. ts_hour (timestamp r) = h \<and> job_type r \<noteq> ''None'') u)\<rparr>)
              [0..<24])"
      and v1: "tv = Some ''average'' \<longrightarrow> title = AverageHourlyTrends \<and> u = t"
      and v2: "tv \<noteq> Some ''average'' \<longrightarrow>
                (\<exists>s d. tv = Some s \<and> to_datetime E s = Some d \<and> title = HourlyTrendsOn d
                   \<and> u = filter (\<lambda>r. ts_date (timestamp r) = d) t)"
      by (elim exE conjE)
    from trend_of_render[OF r] obtain title' rows where
      g': "trend_graph b = TrendGraph title' rows"
      and l: "length rows = 24" and h: "map tr_hour rows = [0..<24]"
      and nn: "\<forall>x\<in>set rows. 0 \<le> tr_promo x \<and> 0 \<le> tr_demo x \<and> 0 \<le> tr_ai_assist x
                  \<and> 0 \<le> tr_job_placements x"
      and sm: "tv = Some ''average'' \<and> (\<forall>r\<in>set t. ts_hour (timestamp r) < 24) \<longrightarrow>
                title' = AverageHourlyTrends
                \<and> sum_list (map tr_promo rows) = real (promo_requests (compute_kpis t))
                \<and> sum_list (map tr_demo rows) = real (demo_count (compute_kpis t))
                \<and> sum_list (map tr_ai_assist rows) = real (ai_assist_requests (compute_kpis t))
                \<and> sum_list (map tr_job_placements rows) = real (jobs_placed (compute_kpis t))"
      by (elim exE conjE)
    have rows: "rows = (map (\<lambda>h. \<lparr>tr_hour = h,
                tr_promo = real (count_rows (\<lambda>r. ts_hour (timestamp r) = h \<and> request_type r = ''promo'') u),
                tr_demo = real (count_rows (\<lambda>r. ts_hour (timestamp r) = h \<and> request_type r = ''demo'') u),
                tr_ai_assist = real (count_rows (\<lambda>r. ts_hour (timestamp r) = h \<and> request_type r = ''ai_assist'') u),
                tr_job_placements = real (count_rows (\<lambda>r. ts_hour (timestamp r) = h \<and> job_type r \<noteq> ''None'') u)\<rparr>)
              [0..<24])"
      using g g' by simp
    have sm': "tv = Some ''average'' \<and> (\<forall>r\<in>set t. ts_hour (timestamp r) < 24) \<longrightarrow>
                sum_list (map tr_promo rows) = real (promo_requests (compute_kpis t))
                \<and> sum_list (map tr_demo rows) = real (demo_count (compute_kpis t))
                \<and> sum_list (map tr_ai_assist rows) = real (ai_assist_requests (compute_kpis t))
                \<and> sum_list (map tr_job_placements rows) = real (jobs_placed (compute_kpis t))"
      using sm by blast
    have gt: "trend_graph b = TrendGraph title rows" using g rows by simp
    from gt rows v1 v2 l h nn sm'
    show "\<exists>title u rows. trend_graph b = TrendGraph title rows
           \<and> rows = (map (\<lambda>h. \<lparr>tr_hour = h,
                tr_promo = real (count_rows (\<lambda>r. ts_hour (timestamp r) = h \<and> request_type r = ''promo'') u),
                tr_demo = real (count_rows (\<lambda>r. ts_hour (timestamp r) = h \<and> request_type r = ''demo'') u),
                tr_ai_assist = real (count_rows (\<lambda>r. ts_hour (timestamp r) = h \<and> request_type r = ''ai_assist'') u),
                tr_job_placements = real (count_rows (\<lambda>r. ts_hour (timestamp r) = h \<and> job_type r \<noteq> ''None'') u)\<rparr>)
              [0..<24])
           \<and> (tv = Some ''average'' \<longrightarrow> title = AverageHourlyTrends \<and> u = t)
           \<and> (tv \<noteq> Some ''average'' \<longrightarrow>
                (\<exists>s d. tv = Some s \<and> to_datetime E s = Some d \<and> title = HourlyTrendsOn d
                   \<and> u = filter (\<lambda>r. ts_date (timestamp r) = d) t))
           \<and> length rows = 24 \<and> map tr_hour rows = [0..<24]
           \<and> (\<forall>x\<in>set rows. 0 \<le> tr_promo x \<and> 0 \<le> tr_demo x \<and> 0 \<le> tr_ai_assist x
                  \<and> 0 \<le> tr_job_placements x)
           \<and> (tv = Some ''average'' \<and> (\<forall>r\<in>set t. ts_hour (timestamp r) < 24) \<longrightarrow>
                sum_list (map tr_promo rows) = real (promo_requests (compute_kpis t))
                \<and> sum_list (map tr_demo rows) = real (demo_count (compute_kpis t))
                \<and> sum_list (map tr_ai_assist rows) = real (ai_assist_requests (compute_kpis t))
                \<and> sum_list (map tr_job_placements rows) = real (jobs_placed (compute_kpis t)))"
      by (intro exI[of _ title] exI[of _ u] exI[of _ rows] conjI)
  qed
qed

lemma example_europe_scope [simp]: "geo_scope_ok example_libs (map_scope example_libs (Some ''Europe''))"
  by (simp add: example_libs_def map_scope_def truthy_str_def)

lemma example_europe_kpis:
  "demo_count (compute_kpis [europe_row]) = 1" "promo_requests (compute_kpis [europe_row]) = 0"
  "ai_assist_requests (compute_kpis [europe_row]) = 0" "jobs_placed (compute_kpis [europe_row]) = 0"
  by (simp_all add: kpi_fields count_rows_def)

theorem hourly_trend_series_witness:
  "\<exists>b rows. render example_libs [europe_row] (Some ''Europe'') None None (DateObj (2024, 3, 1))
       (DateObj (2024, 3, 1)) (Some ''average'') = Inr b
     \<and> trend_graph b = TrendGraph AverageHourlyTrends rows
     \<and> length rows = 24
     \<and> tr_demo (rows ! 10) = 1
     \<and> tr_demo (rows ! 0) = 0
     \<and> sum_list (map tr_demo rows) = 1
     \<and> sum_list (map tr_promo rows) = 0
     \<and> sum_list (map tr_ai_assist rows) = 0
     \<and> sum_list (map tr_job_placements rows) = 0"
proof -
  note T = hourly_trend_series[of "[europe_row]" example_libs "Some ''Europe''" None None
      "DateObj (2024, 3, 1)" "DateObj (2024, 3, 1)" "Some ''average''"]
  have ok: "set (map request_type [europe_row]) \<inter> {''date'', ''job_placements'', ''hour''} = {}
      \<and> geo_scope_ok example_libs (map_scope example_libs (Some ''Europe''))"
    by simp
  from mp[OF conjunct1[OF T] ok] obtain b where b: "render example_libs [europe_row] (Some ''Europe'') None None
       (DateObj (2024, 3, 1)) (DateObj (2024, 3, 1)) (Some ''average'') = Inr b"
    by (rule exE)
  have h: "Some ''average'' = Some ''average'' \<and> (\<forall>r\<in>set [europe_row]. ts_hour (timestamp r) < 24)"
    by simp
  from conjunct2[OF T, THEN spec, THEN mp, OF b] obtain title u rows where
    g: "trend_graph b = TrendGraph title rows"
    and rows: "rows = (map (\<lambda>h. \<lparr>tr_hour = h,
                tr_promo = real (count_rows (\<lambda>r. ts_hour (timestamp r) = h \<and> request_type r = ''promo'') u),
                tr_demo = real (count_rows (\<lambda>r. ts_hour (timestamp r) = h \<and> request_type r = ''demo'') u),
                tr_ai_assist = real (count_rows (\<lambda>r. ts_hour (timestamp r) = h \<and> request_type r = ''ai_assist'') u),
                tr_job_placements = real (count_rows (\<lambda>r. ts_hour (timestamp r) = h \<and> job_type r \<noteq> ''None'') u)\<rparr>)
              [0..<24])"
    and v1: "Some ''average'' = Some ''average'' \<longrightarrow> title = AverageHourlyTrends \<and> u = [europe_row]"
    and l: "length rows = 24"
    and sm: "Some ''average'' = Some ''average'' \<and> (\<forall>r\<in>set [europe_row]. ts_hour (timestamp r) < 24) \<longrightarrow>
                sum_list (map tr_promo rows) = real (promo_requests (compute_kpis [europe_row]))
                \<and> sum_list (map tr_demo rows) = real (demo_count (compute_kpis [europe_row]))
                \<and> sum_list (map tr_ai_assist rows) = real (ai_assist_requests (compute_kpis [europe_row]))
                \<and> sum_list (map tr_job_placements rows) = real (jobs_placed (compute_kpis [europe_row]))"
    by (elim exE conjE)
  from v1 have ti: "title = AverageHourlyTrends" and u: "u = [europe_row]" by simp_all
  from mp[OF sm h] have S: "sum_list (map tr_promo rows) = 0
                \<and> sum_list (map tr_demo rows) = 1
                \<and> sum_list (map tr_ai_assist rows) = 0
                \<and> sum_list (map tr_job_placements rows) = 0"
    unfolding example_europe_kpis by simp
  have ten: "tr_demo (rows ! 10) = 1" unfolding rows u by (simp add: count_rows_def)
  have zero: "tr_demo (rows ! 0) = 0" unfolding rows u by (simp add: count_rows_def)
  show ?thesis
    using b g[unfolded ti] l ten zero S by (intro exI[of _ b] exI[of _ rows]) simp
qed

lemma example_oceania_filter:
  "apply_filters example_libs [oceania_row] (Some ''Oceania'') None None
     (DateStr ''2024-01-01'') (DateStr ''2025-01-01'')
   = Filtered [oceania_row] (DateObj (2024, 1, 1)) (DateObj (2025, 1, 1))"
  by (simp add: apply_filters_nonempty parsed_range_def truthy_str_def truthy_list_def date_pred_def
      continent_pred_def oceania_row_def)

lemma example_oceania_render:
  "render example_libs [oceania_row] (Some ''Oceania'') None None
     (DateObj (2024, 1, 1)) (DateObj (2025, 1, 1)) (Some ''average'')
   = Inl (InvalidScope ''oceania'')"
  by (simp add: render_def stats_data_def revenue_map_fig_def map_scope_def truthy_str_def
      set_date_column_def example_libs_def oceania_row_def)

text \<open>
  The claim as written fails on a non-empty filtered table of the continent Oceania:
  plotly rejects the map scope, the handler returns the "Error Occurred" tuple, and the
  trend output is a placeholder with no entries.
\<close>

theorem oceania_trend_counterexample:
  "apply_filters example_libs [oceania_row] (Some ''Oceania'') None None
     (DateStr ''2024-01-01'') (DateStr ''2025-01-01'')
     = Filtered [oceania_row] (DateObj (2024, 1, 1)) (DateObj (2025, 1, 1))
   \<and> trend_graph (update_dashboard example_libs [oceania_row] (Some ''continent-filter'')
       (Some ''Oceania'') None None (DateStr ''2024-01-01'') (DateStr ''2025-01-01'') None
       (Some ''average'')) = Placeholder ''Error Occurred''
   \<and> error_message (update_dashboard example_libs [oceania_row] (Some ''continent-filter'')
       (Some ''Oceania'') None None (DateStr ''2024-01-01'') (DateStr ''2025-01-01'') None
       (Some ''average'')) = ErrorUpdatingDashboard (InvalidScope ''oceania'')"
proof -
  have nr: "Some ''continent-filter'' \<noteq> Some ''reset-button''" by simp
  have u: "update_dashboard example_libs [oceania_row] (Some ''continent-filter'')
       (Some ''Oceania'') None None (DateStr ''2024-01-01'') (DateStr ''2025-01-01'') None
       (Some ''average'')
     = placeholder_bundle ''Error Occurred'' (ErrorUpdatingDashboard (InvalidScope ''oceania''))
         [oceania_row]"
    by (simp only: update_dashboard_no_reset[OF nr] example_oceania_filter filter_result.case
        example_oceania_render sum.case)
  show ?thesis unfolding u placeholder_fields using example_oceania_filter by simp
qed

section \<open>Summary statistics: live table and export\<close>

lemma sort_replicate: "sort (replicate n (x::real)) = replicate n x"
  by (rule sorted_sort_id) (simp add: sorted_replicate)

lemma sum_list_zeros [simp]: "sum_list (replicate n (0::real)) = 0"
  by (induction n) simp_all

lemma mean_zeros: "0 < n \<Longrightarrow> series_mean (replicate n 0) = Some 0"
  by (simp add: series_mean_def)

lemma median_zeros: "0 < n \<Longrightarrow> series_median (replicate n 0) = Some 0"
  by (simp add: series_median_def sort_replicate)

lemma std_zeros: "series_std (replicate n 0) = (if 2 \<le> n then Some 0 else None)"
  by (simp add: series_std_def)

lemma std_single: "length xs = 1 \<Longrightarrow> series_std xs = None"
  by (simp add: series_std_def)

lemma round2_zero [simp]: "round2 E 0 = 0"
  by (simp add: round2_def)

lemma series_lengths:
  "length (daily_counts P u) = length (group_dates u)"
  "length (get_daily c u) = length (group_dates u)"
  by (simp_all add: daily_counts_def get_daily_def)

lemma group_dates_length: "length (group_dates u) = card (set (map date u))"
  by (simp add: group_dates_def distinct_card[symmetric] del: set_map)

lemma group_dates_pos: "u \<noteq> [] \<Longrightarrow> 0 < length (group_dates u)"
  by (cases u) (simp_all add: group_dates_length card_gt_0_iff)

lemma stats_data_Inr_fields:
  assumes "stats_data u = Inr st"
  shows "sf_dates st = group_dates u" "sf_promo st = get_daily ''promo'' u"
    "sf_demo st = get_daily ''demo'' u" "sf_ai_assist st = get_daily ''ai_assist'' u"
    "sf_job_placements st = daily_counts (\<lambda>r. job_type r \<noteq> ''None'') u"
  using assms by (auto simp: stats_data_def split: if_splits)

lemma get_daily_absent:
  "c \<notin> set (map request_type u) \<Longrightarrow> get_daily c u = replicate (length (group_dates u)) 0"
  by (simp add: get_daily_def)

lemma zero_row:
  assumes "0 < n"
  shows "stats_of name (replicate n 0)
     = \<lparr>metric = name, mean_value = Some 0, median_value = Some 0,
        std_value = (if 2 \<le> n then Some 0 else None)\<rparr>"
    and "round_row E (stats_of name (replicate n 0))
     = \<lparr>metric = name, mean_value = Some 0, median_value = Some 0,
        std_value = (if 2 \<le> n then Some 0 else None)\<rparr>"
  using assms by (simp_all add: stats_of_def round_row_def mean_zeros median_zeros std_zeros)

lemma date_column_dates: "set (map date (set_date_column t)) = (\<lambda>r. Some (ts_date (timestamp r))) ` set t"
  by (auto simp: set_date_column_def)

lemma days_of_table:
  "length (group_dates (set_date_column t)) = card ((\<lambda>r. ts_date (timestamp r)) ` set t)"
proof -
  have "(\<lambda>r. Some (ts_date (timestamp r))) ` set t = Some ` ((\<lambda>r. ts_date (timestamp r)) ` set t)"
    by auto
  then show ?thesis
    unfolding group_dates_length date_column_dates by (simp add: card_image)
qed

lemma single_day_std:
  assumes "stats_data u = Inr st" and "length (sf_dates st) = 1"
  shows "\<forall>s\<in>set (summary_stats st). std_value s = None"
    and "\<forall>s\<in>set (map (round_row E) (summary_stats st)). std_value s = None"
proof -
  note f = stats_data_Inr_fields[OF assms(1)]
  have l: "length (group_dates u) = 1" using assms(2) f(1) by simp
  have "std_value (stats_of name xs) = None" if "length xs = 1" for name xs
    using that by (simp add: stats_of_def std_single)
  then show "\<forall>s\<in>set (summary_stats st). std_value s = None"
    by (simp add: summary_stats_def f series_lengths l)
  then show "\<forall>s\<in>set (map (round_row E) (summary_stats st)). std_value s = None"
    by (simp add: round_row_def)
qed

text \<open>
  C7 (amended). When the statistics are computed on a non-empty table, the daily series
  have one entry per calendar day of the table. A category (demo, ai_assist, promo)
  that never occurs is an all-zero series: its mean and median are 0, and its standard
  deviation is 0 when the table spans at least two days. The standard deviation of a
  one-element series is not defined as 0: it is NaN (\<open>None\<close>), so on a table of
  exactly one calendar day all four standard deviations are NaN, in the export and in
  the displayed table.
\<close>

theorem zero_series_statistics:
  assumes "stats_data (set_date_column t) = Inr st" and "t \<noteq> []"
  shows "length (sf_dates st) = card ((\<lambda>r. ts_date (timestamp r)) ` set t)
       \<and> (''demo'' \<notin> set (map request_type t) \<longrightarrow>
            stats_of ''Demo Requests'' (sf_demo st)
              = \<lparr>metric = ''Demo Requests'', mean_value = Some 0, median_value = Some 0,
                 std_value = (if 2 \<le> length (sf_dates st) then Some 0 else None)\<rparr>
            \<and> round_row E (stats_of ''Demo Requests'' (sf_demo st))
              = \<lparr>metric = ''Demo Requests'', mean_value = Some 0, median_value = Some 0,
                 std_value = (if 2 \<le> length (sf_dates st) then Some 0 else None)\<rparr>)
       \<and> (''ai_assist'' \<notin> set (map request_type t) \<longrightarrow>
            stats_of ''AI Assist Requests'' (sf_ai_assist st)
              = \<lparr>metric = ''AI Assist Requests'', mean_value = Some 0, median_value = Some 0,
                 std_value = (if 2 \<le> length (sf_dates st) then Some 0 else None)\<rparr>
            \<and> round_row E (stats_of ''AI Assist Requests'' (sf_ai_assist st))
              = \<lparr>metric = ''AI Assist Requests'', mean_value = Some 0, median_value = Some 0,
                 std_value = (if 2 \<le> length (sf_dates st) then Some 0 else None)\<rparr>)
       \<and> (''promo'' \<notin> set (map request_type t) \<longrightarrow>
            stats_of ''Promo Events'' (sf_promo st)
              = \<lparr>metric = ''Promo Events'', mean_value = Some 0, median_value = Some 0,
                 std_value = (if 2 \<le> length (sf_dates st) then Some 0 else None)\<rparr>
            \<and> round_row E (stats_of ''Promo Events'' (sf_promo st))
              = \<lparr>metric = ''Promo Events'', mean_value = Some 0, median_value = Some 0,
                 std_value = (if 2 \<le> length (sf_dates st) then Some 0 else None)\<rparr>)
       \<and> (length (sf_dates st) = 1 \<longrightarrow>
            (\<forall>s\<in>set (summary_stats st). std_value s = None)
            \<and> (\<forall>s\<in>set (map (round_row E) (summary_stats st)). std_value s = None))"
proof -
  let ?u = "set_date_column t"
  note f = stats_data_Inr_fields[OF assms(1)]
  have ne: "?u \<noteq> []" using assms(2) by (simp add: set_date_column_def)
  have pos: "0 < length (group_dates ?u)" using ne by (rule group_dates_pos)
  have rt: "set (map request_type ?u) = set (map request_type t)"
    by (simp add: set_date_column_def)
  have days: "length (sf_dates st) = card ((\<lambda>r. ts_date (timestamp r)) ` set t)"
    unfolding f(1) by (rule days_of_table)
  have absent: "sf_demo st = replicate (length (sf_dates st)) 0" if "''demo'' \<notin> set (map request_type t)"
    unfolding f using that rt get_daily_absent[of "''demo''" ?u] by simp
  have absent2: "sf_ai_assist st = replicate (length (sf_dates st)) 0" if "''ai_assist'' \<notin> set (map request_type t)"
    unfolding f using that rt get_daily_absent[of "''ai_assist''" ?u] by simp
  have absent3: "sf_promo st = replicate (length (sf_dates st)) 0" if "''promo'' \<notin> set (map request_type t)"
    unfolding f using that rt get_daily_absent[of "''promo''" ?u] by simp
  have pos': "0 < length (sf_dates st)" unfolding f(1) by (rule pos)
  note z = zero_row[OF pos']
  have a: "''demo'' \<notin> set (map request_type t) \<longrightarrow>
            stats_of ''Demo Requests'' (sf_demo st)
              = \<lparr>metric = ''Demo Requests'', mean_value = Some 0, median_value = Some 0,
                 std_value = (if 2 \<le> length (sf_dates st) then Some 0 else None)\<rparr>
            \<and> round_row E (stats_of ''Demo Requests'' (sf_demo st))
              = \<lparr>metric = ''Demo Requests'', mean_value = Some 0, median_value = Some 0,
                 std_value = (if 2 \<le> length (sf_dates st) then Some 0 else None)\<rparr>"
    using absent z(1)[where name = "''Demo Requests''"] z(2)[where name = "''Demo Requests''" and E = E] by (intro impI) (simp only: simp_thms)
  have b: "''ai_assist'' \<notin> set (map request_type t) \<longrightarrow>
            stats_of ''AI Assist Requests'' (sf_ai_assist st)
              = \<lparr>metric = ''AI Assist Requests'', mean_value = Some 0, median_value = Some 0,
                 std_value = (if 2 \<le> length (sf_dates st) then Some 0 else None)\<rparr>
            \<and> round_row E (stats_of ''AI Assist Requests'' (sf_ai_assist st))
              = \<lparr>metric = ''AI Assist Requests'', mean_value = Some 0, median_value = Some 0,
                 std_value = (if 2 \<le> length (sf_dates st) then Some 0 else None)\<rparr>"
    using absent2 z(1)[where name = "''AI Assist Requests''"] z(2)[where name = "''AI Assist Requests''" and E = E] by (intro impI) (simp only: simp_thms)
  have c: "''promo'' \<notin> set (map request_type t) \<longrightarrow>
            stats_of ''Promo Events'' (sf_promo st)
              = \<lparr>metric = ''Promo Events'', mean_value = Some 0, median_value = Some 0,
                 std_value = (if 2 \<le> length (sf_dates st) then Some 0 else None)\<rparr>
            \<and> round_row E (stats_of ''Promo Events'' (sf_promo st))
              = \<lparr>metric = ''Promo Events'', mean_value = Some 0, median_value = Some 0,
                 std_value = (if 2 \<le> length (sf_dates st) then Some 0 else None)\<rparr>"
    using absent3 z(1)[where name = "''Promo Events''"] z(2)[where name = "''Promo Events''" and E = E] by (intro impI) (simp only: simp_thms)
  have d: "length (sf_dates st) = 1 \<longrightarrow>
            (\<forall>s\<in>set (summary_stats st). std_value s = None)
            \<and> (\<forall>s\<in>set (map (round_row E) (summary_stats st)). std_value s = None)"
    using single_day_std[OF assms(1)] by (intro impI conjI)
  from days a b c d show ?thesis by (intro conjI)
qed

lemma example_stats_ok:
  "\<exists>st. stats_data (set_date_column [europe_row, asia_row]) = Inr st"
  by (simp add: stats_data_def)

theorem zero_series_statistics_witness:
  "\<exists>st. stats_data (set_date_column [europe_row, asia_row]) = Inr st
     \<and> length (sf_dates st) = 2
     \<and> round_row example_libs (stats_of ''Promo Events'' (sf_promo st))
         = \<lparr>metric = ''Promo Events'', mean_value = Some 0, median_value = Some 0,
            std_value = Some 0\<rparr>"
proof -
  obtain st where st: "stats_data (set_date_column [europe_row, asia_row]) = Inr st"
    using example_stats_ok by (rule exE)
  have ne: "[europe_row, asia_row] \<noteq> []" by simp
  note T = zero_series_statistics[OF st ne, where E = example_libs]
  have days: "length (sf_dates st) = 2"
    using conjunct1[OF T] by simp
  have np: "''promo'' \<notin> set (map request_type [europe_row, asia_row])" by simp
  from T have "''promo'' \<notin> set (map request_type [europe_row, asia_row]) \<longrightarrow>
            stats_of ''Promo Events'' (sf_promo st)
              = \<lparr>metric = ''Promo Events'', mean_value = Some 0, median_value = Some 0,
                 std_value = (if 2 \<le> length (sf_dates st) then Some 0 else None)\<rparr>
            \<and> round_row example_libs (stats_of ''Promo Events'' (sf_promo st))
              = \<lparr>metric = ''Promo Events'', mean_value = Some 0, median_value = Some 0,
                 std_value = (if 2 \<le> length (sf_dates st) then Some 0 else None)\<rparr>"
    by (rule conjunct2[THEN conjunct2, THEN conjunct2, THEN conjunct1])
  from mp[OF this np] days have "round_row example_libs (stats_of ''Promo Events'' (sf_promo st))
         = \<lparr>metric = ''Promo Events'', mean_value = Some 0, median_value = Some 0,
            std_value = Some 0\<rparr>"
    by (simp add: round_row_def)
  with st days show ?thesis by (intro exI[of _ st]) simp
qed

text \<open>
  The claim as written fails on the one-row table of the specification's scenario: the
  cycle succeeds, and the four displayed standard deviations are NaN, not 0.
\<close>

lemma example_one_row_filter:
  "apply_filters example_libs [europe_row] None None None (DateStr ''2024-01-01'') (DateStr ''2025-01-01'')
     = Filtered [europe_row] (DateObj (2024, 1, 1)) (DateObj (2025, 1, 1))"
  by (simp add: apply_filters_nonempty parsed_range_def truthy_str_def truthy_list_def date_pred_def)

lemma example_one_row_render:
  "\<exists>b. render example_libs [europe_row] None None None (DateObj (2024, 1, 1)) (DateObj (2025, 1, 1))
     (Some ''average'') = Inr b"
  by (rule render_succeeds) (simp_all add: map_scope_def truthy_str_def)

lemma example_one_row_cycle:
  "\<exists>b. render example_libs [europe_row] None None None (DateObj (2024, 1, 1))
         (DateObj (2025, 1, 1)) (Some ''average'') = Inr b
     \<and> update_dashboard example_libs [europe_row] None None None None
         (DateStr ''2024-01-01'') (DateStr ''2025-01-01'') None (Some ''average'') = b"
proof -
  obtain b where b: "render example_libs [europe_row] None None None (DateObj (2024, 1, 1))
     (DateObj (2025, 1, 1)) (Some ''average'') = Inr b"
    using example_one_row_render by (rule exE)
  have nr: "(None :: string option) \<noteq> Some ''reset-button''" by simp
  have "update_dashboard example_libs [europe_row] None None None None
      (DateStr ''2024-01-01'') (DateStr ''2025-01-01'') None (Some ''average'') = b"
    by (simp only: update_dashboard_no_reset[OF nr] example_one_row_filter filter_result.case b sum.case)
  with b show ?thesis by (intro exI[of _ b] conjI)
qed

theorem single_day_std_counterexample:
  "filtered_data (update_dashboard example_libs [europe_row] None None None None
      (DateStr ''2024-01-01'') (DateStr ''2025-01-01'') None (Some ''average''))
     = set_hour_column (set_date_column [europe_row])
   \<and> map metric (summary_stats_table (update_dashboard example_libs [europe_row] None None None None
      (DateStr ''2024-01-01'') (DateStr ''2025-01-01'') None (Some ''average'')))
     = [''Demo Requests'', ''AI Assist Requests'', ''Promo Events'', ''Job Placements'']
   \<and> map std_value (summary_stats_table (update_dashboard example_libs [europe_row] None None None
      None (DateStr ''2024-01-01'') (DateStr ''2025-01-01'') None (Some ''average'')))
     = [None, None, None, None]"
proof -
  from example_one_row_cycle obtain b where b: "render example_libs [europe_row] None None None
       (DateObj (2024, 1, 1)) (DateObj (2025, 1, 1)) (Some ''average'') = Inr b"
    and u: "update_dashboard example_libs [europe_row] None None None None
      (DateStr ''2024-01-01'') (DateStr ''2025-01-01'') None (Some ''average'') = b"
    by (elim exE conjE)
  from render_Inr_parts[OF b] obtain st where st: "stats_data (set_date_column [europe_row]) = Inr st"
    and tab: "summary_stats_table b = map (round_row example_libs) (summary_stats st)"
    and rows: "filtered_data b = set_hour_column (set_date_column [europe_row])"
    by (elim exE conjE)
  have one: "length (sf_dates st) = 1"
    using stats_data_Inr_fields(1)[OF st] days_of_table[of "[europe_row]"] by simp
  have names: "map metric (map (round_row example_libs) (summary_stats st))
      = [''Demo Requests'', ''AI Assist Requests'', ''Promo Events'', ''Job Placements'']"
    by (simp add: summary_stats_def round_row_def stats_of_def)
  have stds: "map std_value (map (round_row example_libs) (summary_stats st)) = [None, None, None, None]"
    using single_day_std(2)[OF st one] by (simp add: summary_stats_def)
  show ?thesis unfolding u tab rows using names stds by simp
qed

lemma apply_filters_Filtered_nonempty:
  assumes "apply_filters E df c cs ps s e = Filtered t sd ed"
  shows "t \<noteq> []"
proof -
  have ne: "df \<noteq> []" using assms apply_filters_empty_base by blast
  show ?thesis using assms
    by (auto simp: apply_filters_nonempty[OF ne] split: option.splits if_splits)
qed






lemma download_nothing [simp]: "download_report n (Some []) = None"
  by (simp add: download_report_def)






section \<open>The cycle on frame objects\<close>

text \<open>
  Every step of the filter block leaves its variable on an object made in the cycle and
  the objects of the starting store in place; the step's result is that of the step on
  frames as values.
\<close>

lemma holds_new_object: "holds \<sigma> f (new_object f \<sigma>)"
  by (simp add: holds_def new_object_def)

lemma holds_new_object_later:
  assumes "holds \<sigma> g v"
  shows "holds \<sigma> f (new_object f (snd v))"
  using assms by (auto simp: holds_def new_object_def)

lemma select_object_holds:
  assumes "holds \<sigma> f v"
  shows "case select_object a col P v of
           Inl x \<Rightarrow> (if a then select_rows col P f else Inr f) = Inl x
         | Inr v' \<Rightarrow> \<exists>f'. (if a then select_rows col P f else Inr f) = Inr f' \<and> holds \<sigma> f' v'"
proof (cases a)
  case False
  then show ?thesis using assms by (simp add: select_object_def)
next
  case True
  have fv: "snd v ! fst v = f" using assms by (simp add: holds_def)
  show ?thesis
  proof (cases "select_rows col P f")
    case (Inl x)
    then show ?thesis using True fv by (simp add: select_object_def)
  next
    case (Inr f')
    then show ?thesis using True fv holds_new_object_later[OF assms, of f']
      by (simp add: select_object_def)
  qed
qed

lemma start_frame:
  "(if rows_of g \<noteq> [] then Table (rows_of g) else NoColumns)
     = (if \<not> frame_empty g then g else NoColumns)"
  by (cases g) (simp_all add: frame_empty_def)

lemma filter_steps_pure:
  "continent_filter c f = (if truthy_str c then select_rows ''continent'' (continent_pred c) f else Inr f)"
  "country_filter cs f = (if truthy_list cs then select_rows ''country'' (country_pred cs) f else Inr f)"
  "product_filter ps f = (if truthy_list ps then select_rows ''product_type'' (product_pred ps) f else Inr f)"
  by (simp_all add: continent_filter_def country_filter_def product_filter_def)

lemma holds_Table:
  assumes "holds \<sigma> f v" and "\<not> frame_empty f"
  shows "snd v ! fst v = Table (rows_of f)"
  using assms by (cases f) (simp_all add: holds_def frame_empty_def)

lemma ends_well_simple:
  assumes "holds \<sigma> f v" and "\<And>t sd ed. res \<noteq> Filtered t sd ed"
  shows "ends_well \<sigma> res (res, v)"
  using assms by (auto simp: ends_well_def holds_def)

lemma ends_well_check:
  assumes "holds \<sigma> f v"
  shows "ends_well \<sigma> (if frame_empty f then EmptyResult else Filtered (rows_of f) sd ed)
           (if frame_empty (snd v ! fst v) then (EmptyResult, v)
            else (Filtered (rows_of (snd v ! fst v)) sd ed, v))"
proof -
  have fv: "snd v ! fst v = f" using assms by (simp add: holds_def)
  show ?thesis
    using assms holds_Table[OF assms] unfolding fv
    by (auto simp: ends_well_def holds_def)
qed

lemma date_block_store:
  assumes h: "holds \<sigma> f v3"
  shows "ends_well \<sigma>
     (case date_filter E s e f of
        None \<Rightarrow> InvalidDateRange
      | Some (f4, sd, ed) \<Rightarrow> if frame_empty f4 then EmptyResult else Filtered (rows_of f4) sd ed)
     (if truthy_date s \<and> truthy_date e then
        (case parse_date E s of
           None \<Rightarrow> (InvalidDateRange, v3)
         | Some sd \<Rightarrow>
             (case parse_date E e of
                None \<Rightarrow> (InvalidDateRange, v3)
              | Some ed \<Rightarrow>
                  (case select_object True ''timestamp'' (date_pred sd ed) v3 of
                     Inl x \<Rightarrow> (InvalidDateRange, v3)
                   | Inr v4 \<Rightarrow>
                       if frame_empty (snd v4 ! fst v4) then (EmptyResult, v4)
                       else (Filtered (rows_of (snd v4 ! fst v4)) (DateObj sd) (DateObj ed), v4))))
      else if frame_empty (snd v3 ! fst v3) then (EmptyResult, v3)
      else (Filtered (rows_of (snd v3 ! fst v3)) s e, v3))"
proof (cases "truthy_date s \<and> truthy_date e")
  case False
  have "date_filter E s e f = Some (f, s, e)"
    by (simp only: date_filter_def False if_False)
  then show ?thesis using ends_well_check[OF h, of s e]
    by (simp only: False if_False option.case prod.case)
next
  case True
  show ?thesis
  proof (cases "parse_date E s")
    case None
    then show ?thesis using ends_well_simple[OF h, of InvalidDateRange]
      by (simp add: date_filter_def True)
  next
    case (Some sd)
    note sd = Some
    show ?thesis
    proof (cases "parse_date E e")
      case None
      then show ?thesis using sd ends_well_simple[OF h, of InvalidDateRange]
        by (simp add: date_filter_def True)
    next
      case (Some ed)
      note so = select_object_holds[OF h, of True "''timestamp''" "date_pred sd ed"]
      show ?thesis
      proof (cases "select_object True ''timestamp'' (date_pred sd ed) v3")
        case (Inl x)
        with so have "select_rows ''timestamp'' (date_pred sd ed) f = Inl x" by simp
        then show ?thesis using sd Some Inl ends_well_simple[OF h, of InvalidDateRange]
          by (simp add: date_filter_def True)
      next
        case (Inr v4)
        with so obtain f' where f': "select_rows ''timestamp'' (date_pred sd ed) f = Inr f'"
          and h4: "holds \<sigma> f' v4"
          by auto
        show ?thesis using sd Some Inr f' ends_well_check[OF h4, of "DateObj sd" "DateObj ed"]
          by (simp add: date_filter_def True)
      qed
    qed
  qed
qed

lemma apply_filters_store_spec:
  "ends_well \<sigma> (apply_filters E (rows_of (\<sigma> ! df)) c cs ps s e)
     (apply_filters_store E df c cs ps s e \<sigma>)"
proof -
  define f0 where "f0 = (if \<not> frame_empty (\<sigma> ! df) then \<sigma> ! df else NoColumns)"
  define v0 where "v0 = new_object f0 \<sigma>"
  have h0: "holds \<sigma> f0 v0" unfolding v0_def by (rule holds_new_object)
  have st: "(if rows_of (\<sigma> ! df) \<noteq> [] then Table (rows_of (\<sigma> ! df)) else NoColumns) = f0"
    unfolding f0_def by (rule start_frame)
  have v0': "(if \<not> frame_empty (\<sigma> ! df) then new_object (\<sigma> ! df) \<sigma> else new_object NoColumns \<sigma>) = v0"
    unfolding v0_def f0_def by simp
  have L: "apply_filters E (rows_of (\<sigma> ! df)) c cs ps s e =
     (case (if truthy_str c then select_rows ''continent'' (continent_pred c) f0 else Inr f0) of
        Inl x \<Rightarrow> Raised x
      | Inr f1 \<Rightarrow>
          (case (if truthy_list cs then select_rows ''country'' (country_pred cs) f1 else Inr f1) of
             Inl x \<Rightarrow> Raised x
           | Inr f2 \<Rightarrow>
               (case (if truthy_list ps then select_rows ''product_type'' (product_pred ps) f2 else Inr f2) of
                  Inl x \<Rightarrow> Raised x
                | Inr f3 \<Rightarrow>
                    (case date_filter E s e f3 of
                       None \<Rightarrow> InvalidDateRange
                     | Some (f4, sd, ed) \<Rightarrow>
                         if frame_empty f4 then EmptyResult
                         else Filtered (rows_of f4) sd ed))))"
    unfolding apply_filters_def Let_def st filter_steps_pure ..
  have R: "apply_filters_store E df c cs ps s e \<sigma> =
     (case select_object (truthy_str c) ''continent'' (continent_pred c) v0 of
        Inl x \<Rightarrow> (Raised x, v0)
      | Inr v1 \<Rightarrow>
          (case select_object (truthy_list cs) ''country'' (country_pred cs) v1 of
             Inl x \<Rightarrow> (Raised x, v1)
           | Inr v2 \<Rightarrow>
               (case select_object (truthy_list ps) ''product_type'' (product_pred ps) v2 of
                  Inl x \<Rightarrow> (Raised x, v2)
                | Inr v3 \<Rightarrow>
                    if truthy_date s \<and> truthy_date e then
                      (case parse_date E s of
                         None \<Rightarrow> (InvalidDateRange, v3)
                       | Some sd \<Rightarrow>
                           (case parse_date E e of
                              None \<Rightarrow> (InvalidDateRange, v3)
                            | Some ed \<Rightarrow>
                                (case select_object True ''timestamp'' (date_pred sd ed) v3 of
                                   Inl x \<Rightarrow> (InvalidDateRange, v3)
                                 | Inr v4 \<Rightarrow>
                                     if frame_empty (snd v4 ! fst v4) then (EmptyResult, v4)
                                     else (Filtered (rows_of (snd v4 ! fst v4)) (DateObj sd)
                                             (DateObj ed), v4))))
                    else if frame_empty (snd v3 ! fst v3) then (EmptyResult, v3)
                    else (Filtered (rows_of (snd v3 ! fst v3)) s e, v3))))"
    unfolding apply_filters_store_def Let_def v0' ..
  note s1 = select_object_holds[OF h0, of "truthy_str c" "''continent''" "continent_pred c"]
  show ?thesis
  proof (cases "select_object (truthy_str c) ''continent'' (continent_pred c) v0")
    case (Inl x)
    with s1 have "(if truthy_str c then select_rows ''continent'' (continent_pred c) f0 else Inr f0) = Inl x"
      by simp
    then show ?thesis unfolding L R sum.case Inl using ends_well_simple[OF h0, of "Raised x"] by simp
  next
    case (Inr v1)
    note v1 = Inr
    with s1 obtain f1 where f1: "(if truthy_str c then select_rows ''continent'' (continent_pred c) f0 else Inr f0) = Inr f1"
      and h1: "holds \<sigma> f1 v1" by auto
    note s2 = select_object_holds[OF h1, of "truthy_list cs" "''country''" "country_pred cs"]
    show ?thesis
    proof (cases "select_object (truthy_list cs) ''country'' (country_pred cs) v1")
      case (Inl x)
      with s2 have "(if truthy_list cs then select_rows ''country'' (country_pred cs) f1 else Inr f1) = Inl x"
        by simp
      then show ?thesis unfolding L R v1 f1 sum.case Inl using ends_well_simple[OF h1, of "Raised x"] by simp
    next
      case (Inr v2)
      note v2 = Inr
      with s2 obtain f2 where f2: "(if truthy_list cs then select_rows ''country'' (country_pred cs) f1 else Inr f1) = Inr f2"
        and h2: "holds \<sigma> f2 v2" by auto
      note s3 = select_object_holds[OF h2, of "truthy_list ps" "''product_type''" "product_pred ps"]
      show ?thesis
      proof (cases "select_object (truthy_list ps) ''product_type'' (product_pred ps) v2")
        case (Inl x)
        with s3 have "(if truthy_list ps then select_rows ''product_type'' (product_pred ps) f2 else Inr f2) = Inl x"
          by simp
        then show ?thesis unfolding L R v1 f1 v2 f2 sum.case Inl
          using ends_well_simple[OF h2, of "Raised x"] by simp
      next
        case (Inr v3)
        with s3 obtain f3 where f3: "(if truthy_list ps then select_rows ''product_type'' (product_pred ps) f2 else Inr f2) = Inr f3"
          and h3: "holds \<sigma> f3 v3" by auto
        show ?thesis unfolding L R v1 f1 v2 f2 Inr f3 sum.case
          by (rule date_block_store[OF h3])
      qed
    qed
  qed
qed

lemma render_store_result:
  assumes "r < length \<sigma>" and "\<sigma> ! r = Table t"
  shows "fst (render_store E r c cs ps sd ed tv \<sigma>) = render E t c cs ps sd ed tv"
  using assms
  by (simp add: render_store_def render_def assign_column_def Let_def split: sum.splits)

lemma render_store_frame:
  assumes "n \<le> r"
  shows "take n (snd (render_store E r c cs ps sd ed tv \<sigma>)) = take n \<sigma>"
  using assms
  by (simp add: render_store_def assign_column_def Let_def split: sum.splits)

lemma render_store_retained:
  assumes "r < length \<sigma>" and "\<sigma> ! r = Table t"
    and "fst (render_store E r c cs ps sd ed tv \<sigma>) = Inr b"
  shows "snd (render_store E r c cs ps sd ed tv \<sigma>) ! r = Table (filtered_data b)"
  using assms
  by (auto simp: render_store_def assign_column_def Let_def split: sum.splits)

lemma update_dashboard_store_unfold:
  "update_dashboard_store E df tid c0 cs0 ps0 s0 e0 n tv0 \<sigma> =
     (case apply_filters_store E df (if tid = Some ''reset-button'' then None else c0)
             (if tid = Some ''reset-button'' then Some [] else cs0)
             (if tid = Some ''reset-button'' then Some [] else ps0)
             (if tid = Some ''reset-button'' then DateObj (min_date (rows_of (\<sigma> ! df))) else s0)
             (if tid = Some ''reset-button'' then DateObj (max_date (rows_of (\<sigma> ! df))) else e0) \<sigma> of
        (InvalidDateRange, v) \<Rightarrow>
          (placeholder_bundle ''Invalid Date Range'' (Msg ''Invalid date range selected'')
             (rows_of (\<sigma> ! df)), snd v)
      | (Raised x, v) \<Rightarrow>
          (placeholder_bundle ''Error Occurred'' (ErrorUpdatingDashboard x) (rows_of (\<sigma> ! df)), snd v)
      | (EmptyResult, v) \<Rightarrow>
          (placeholder_bundle ''No Data Available'' (Msg ''No data available for selected filters'')
             (rows_of (\<sigma> ! df)), snd v)
      | (Filtered t sd ed, v) \<Rightarrow>
          (case render_store E (fst v) (if tid = Some ''reset-button'' then None else c0)
                  (if tid = Some ''reset-button'' then Some [] else cs0)
                  (if tid = Some ''reset-button'' then Some [] else ps0) sd ed
                  (if tid = Some ''reset-button'' then Some ''average'' else tv0) (snd v) of
             (Inl x, \<sigma>') \<Rightarrow>
               (placeholder_bundle ''Error Occurred'' (ErrorUpdatingDashboard x) (rows_of (\<sigma> ! df)), \<sigma>')
           | (Inr b, \<sigma>') \<Rightarrow> (b, \<sigma>')))"
  unfolding update_dashboard_store_def Let_def ..

lemma update_dashboard_unfold:
  "update_dashboard E df tid c0 cs0 ps0 s0 e0 n tv0 =
     (case apply_filters E df (if tid = Some ''reset-button'' then None else c0)
             (if tid = Some ''reset-button'' then Some [] else cs0)
             (if tid = Some ''reset-button'' then Some [] else ps0)
             (if tid = Some ''reset-button'' then DateObj (min_date df) else s0)
             (if tid = Some ''reset-button'' then DateObj (max_date df) else e0) of
        InvalidDateRange \<Rightarrow>
          placeholder_bundle ''Invalid Date Range'' (Msg ''Invalid date range selected'') df
      | Raised x \<Rightarrow> placeholder_bundle ''Error Occurred'' (ErrorUpdatingDashboard x) df
      | EmptyResult \<Rightarrow>
          placeholder_bundle ''No Data Available'' (Msg ''No data available for selected filters'') df
      | Filtered t sd ed \<Rightarrow>
          (case render E t (if tid = Some ''reset-button'' then None else c0)
                  (if tid = Some ''reset-button'' then Some [] else cs0)
                  (if tid = Some ''reset-button'' then Some [] else ps0) sd ed
                  (if tid = Some ''reset-button'' then Some ''average'' else tv0) of
             Inl x \<Rightarrow> placeholder_bundle ''Error Occurred'' (ErrorUpdatingDashboard x) df
           | Inr b \<Rightarrow> b))"
  unfolding update_dashboard_def Let_def ..

text \<open>
  One cycle on objects, given how its filter block ended: the outputs are those of
  \<open>update_dashboard\<close> on the rows of the module's table, the objects that existed before
  the cycle are as they were, and after a cycle without a message the retained rows
  are the contents of an object made in the cycle.
\<close>

lemma cycle_after_filters:
  assumes ew: "ends_well \<sigma> res out"
    and U_def: "U = (case out of
        (InvalidDateRange, v) \<Rightarrow> (placeholder_bundle t1 (Msg m1) base, snd v)
      | (Raised x, v) \<Rightarrow> (placeholder_bundle t2 (ErrorUpdatingDashboard x) base, snd v)
      | (EmptyResult, v) \<Rightarrow> (placeholder_bundle t3 (Msg m3) base, snd v)
      | (Filtered t sd ed, v) \<Rightarrow>
          (case render_store E (fst v) c cs ps sd ed tv (snd v) of
             (Inl x, \<sigma>') \<Rightarrow> (placeholder_bundle t2 (ErrorUpdatingDashboard x) base, \<sigma>')
           | (Inr b, \<sigma>') \<Rightarrow> (b, \<sigma>')))"
    and m1: "m1 \<noteq> []" and m3: "m3 \<noteq> []"
  shows "fst U = (case res of
        InvalidDateRange \<Rightarrow> placeholder_bundle t1 (Msg m1) base
      | Raised x \<Rightarrow> placeholder_bundle t2 (ErrorUpdatingDashboard x) base
      | EmptyResult \<Rightarrow> placeholder_bundle t3 (Msg m3) base
      | Filtered t sd ed \<Rightarrow>
          (case render E t c cs ps sd ed tv of
             Inl x \<Rightarrow> placeholder_bundle t2 (ErrorUpdatingDashboard x) base
           | Inr b \<Rightarrow> b))"
    and "take (length \<sigma>) (snd U) = \<sigma>"
    and "error_message (fst U) = Msg [] \<longrightarrow>
           (\<exists>r. length \<sigma> \<le> r \<and> r < length (snd U) \<and> snd U ! r = Table (filtered_data (fst U)))"
proof -
  obtain r \<sigma>0 where out: "out = (res, r, \<sigma>0)"
    using ew by (cases out) (auto simp: ends_well_def)
  have tk: "take (length \<sigma>) \<sigma>0 = \<sigma>" and lo: "length \<sigma> \<le> r" and hi: "r < length \<sigma>0"
    using ew unfolding out by (simp_all add: ends_well_def)
  have A: "fst U = (case res of
        InvalidDateRange \<Rightarrow> placeholder_bundle t1 (Msg m1) base
      | Raised x \<Rightarrow> placeholder_bundle t2 (ErrorUpdatingDashboard x) base
      | EmptyResult \<Rightarrow> placeholder_bundle t3 (Msg m3) base
      | Filtered t sd ed \<Rightarrow>
          (case render E t c cs ps sd ed tv of
             Inl x \<Rightarrow> placeholder_bundle t2 (ErrorUpdatingDashboard x) base
           | Inr b \<Rightarrow> b))
    \<and> take (length \<sigma>) (snd U) = \<sigma>
    \<and> (error_message (fst U) = Msg [] \<longrightarrow>
           (\<exists>r. length \<sigma> \<le> r \<and> r < length (snd U) \<and> snd U ! r = Table (filtered_data (fst U))))"
  proof (cases res)
    case InvalidDateRange
    then show ?thesis using tk m1 by (simp add: U_def out)
  next
    case (Raised x)
    then show ?thesis using tk by (simp add: U_def out)
  next
    case EmptyResult
    then show ?thesis using tk m3 by (simp add: U_def out)
  next
    case (Filtered t sd ed)
    have at: "\<sigma>0 ! r = Table t" using ew unfolding out Filtered by (simp add: ends_well_def)
    obtain ro \<sigma>R where R: "render_store E r c cs ps sd ed tv \<sigma>0 = (ro, \<sigma>R)"
      by (cases "render_store E r c cs ps sd ed tv \<sigma>0") simp
    have R1: "render E t c cs ps sd ed tv = ro"
      using render_store_result[OF hi at, of E c cs ps sd ed tv] unfolding R by simp
    have R2: "take (length \<sigma>) \<sigma>R = \<sigma>"
      using render_store_frame[OF lo, of E c cs ps sd ed tv \<sigma>0] tk unfolding R by simp
    have "length (snd (render_store E r c cs ps sd ed tv \<sigma>0)) = length \<sigma>0"
      by (simp add: render_store_def assign_column_def Let_def split: sum.splits)
    then have R3: "length \<sigma>R = length \<sigma>0" unfolding R by simp
    show ?thesis
    proof (cases ro)
      case (Inl x)
      have "U = (placeholder_bundle t2 (ErrorUpdatingDashboard x) base, \<sigma>R)"
        by (simp add: U_def out Filtered R Inl)
      then show ?thesis using R1 R2 Inl Filtered by simp
    next
      case (Inr b)
      have u: "U = (b, \<sigma>R)"
        by (simp add: U_def out Filtered R Inr)
      have "fst (render_store E r c cs ps sd ed tv \<sigma>0) = Inr b" unfolding R Inr by simp
      from render_store_retained[OF hi at this] have rt: "\<sigma>R ! r = Table (filtered_data b)"
        unfolding R by simp
      have hi': "r < length \<sigma>R" using hi R3 by simp
      have "\<exists>r. length \<sigma> \<le> r \<and> r < length \<sigma>R \<and> \<sigma>R ! r = Table (filtered_data b)"
        using lo hi' rt by (intro exI[of _ r] conjI)
      then show ?thesis using R1 R2 Inr Filtered u by simp
    qed
  qed
  from A show "fst U = (case res of
        InvalidDateRange \<Rightarrow> placeholder_bundle t1 (Msg m1) base
      | Raised x \<Rightarrow> placeholder_bundle t2 (ErrorUpdatingDashboard x) base
      | EmptyResult \<Rightarrow> placeholder_bundle t3 (Msg m3) base
      | Filtered t sd ed \<Rightarrow>
          (case render E t c cs ps sd ed tv of
             Inl x \<Rightarrow> placeholder_bundle t2 (ErrorUpdatingDashboard x) base
           | Inr b \<Rightarrow> b))" by (rule conjunct1)
  from A show "take (length \<sigma>) (snd U) = \<sigma>" by (rule conjunct2[THEN conjunct1])
  from A show "error_message (fst U) = Msg [] \<longrightarrow>
           (\<exists>r. length \<sigma> \<le> r \<and> r < length (snd U) \<and> snd U ! r = Table (filtered_data (fst U)))"
    by (rule conjunct2[THEN conjunct2])
qed

lemma apply_filters_Filtered_filter:
  assumes "apply_filters E df c cs ps s e = Filtered t sd ed"
  shows "\<exists>P. t = filter P df"
proof -
  have ne: "df \<noteq> []" using assms apply_filters_empty_base by blast
  note a = assms[unfolded apply_filters_nonempty[OF ne]]
  show ?thesis
  proof (cases "parsed_range E s e")
    case None
    then show ?thesis using a by simp
  next
    case (Some dr)
    have "t = fold (filter_step c cs ps dr) [ByContinent, ByCountry, ByProduct, ByDate] df"
      using a unfolding Some option.case by (simp split: if_splits)
    then show ?thesis unfolding fold_filter_step by blast
  qed
qed

lemma derived_columns:
  "set_hour_column (set_date_column t)
     = map (\<lambda>x. x\<lparr>date := Some (ts_date (timestamp x)), hour := Some (ts_hour (timestamp x))\<rparr>) t"
  by (simp add: set_hour_column_def set_date_column_def)

lemma cycle_success_rows:
  assumes "error_message (update_dashboard E df tid c0 cs0 ps0 s0 e0 n tv0) = Msg []"
  shows "\<exists>P. filter P df \<noteq> []
           \<and> filtered_data (update_dashboard E df tid c0 cs0 ps0 s0 e0 n tv0)
               = set_hour_column (set_date_column (filter P df))"
proof -
  define c where "c = (if tid = Some ''reset-button'' then None else c0)"
  define cs where "cs = (if tid = Some ''reset-button'' then Some [] else cs0)"
  define ps where "ps = (if tid = Some ''reset-button'' then Some [] else ps0)"
  define s where "s = (if tid = Some ''reset-button'' then DateObj (min_date df) else s0)"
  define e where "e = (if tid = Some ''reset-button'' then DateObj (max_date df) else e0)"
  define tv where "tv = (if tid = Some ''reset-button'' then Some ''average'' else tv0)"
  note u = update_dashboard_unfold[of E df tid c0 cs0 ps0 s0 e0 n tv0,
      folded c_def cs_def ps_def s_def e_def tv_def]
  show ?thesis
  proof (cases "apply_filters E df c cs ps s e")
    case InvalidDateRange
    then show ?thesis using assms unfolding u by simp
  next
    case (Raised x)
    then show ?thesis using assms unfolding u by simp
  next
    case EmptyResult
    then show ?thesis using assms unfolding u by simp
  next
    case (Filtered t sd ed)
    from apply_filters_Filtered_filter[OF Filtered] obtain P where t: "t = filter P df" ..
    have ne: "t \<noteq> []" using Filtered by (rule apply_filters_Filtered_nonempty)
    show ?thesis
    proof (cases "render E t c cs ps sd ed tv")
      case (Inl x)
      then show ?thesis using assms Filtered unfolding u by simp
    next
      case (Inr b)
      have "update_dashboard E df tid c0 cs0 ps0 s0 e0 n tv0 = b"
        unfolding u Filtered by (simp add: Inr)
      then show ?thesis using render_rows[OF Inr] ne unfolding t by (intro exI[of _ P]) simp
    qed
  qed
qed

lemma update_dashboard_store_cycle:
  assumes "update_dashboard_store E df tid c0 cs0 ps0 s0 e0 n tv0 \<sigma> = (b, \<sigma>')"
  shows "b = update_dashboard E (rows_of (\<sigma> ! df)) tid c0 cs0 ps0 s0 e0 n tv0"
    and "take (length \<sigma>) \<sigma>' = \<sigma>"
    and "error_message b = Msg [] \<longrightarrow>
           (\<exists>r. length \<sigma> \<le> r \<and> r < length \<sigma>' \<and> \<sigma>' ! r = Table (filtered_data b))"
proof -
  have m1: "''Invalid date range selected'' \<noteq> []" and m3: "''No data available for selected filters'' \<noteq> []"
    by simp_all
  note ew = apply_filters_store_spec[of \<sigma> E df
      "if tid = Some ''reset-button'' then None else c0"
      "if tid = Some ''reset-button'' then Some [] else cs0"
      "if tid = Some ''reset-button'' then Some [] else ps0"
      "if tid = Some ''reset-button'' then DateObj (min_date (rows_of (\<sigma> ! df))) else s0"
      "if tid = Some ''reset-button'' then DateObj (max_date (rows_of (\<sigma> ! df))) else e0"]
  note cy = cycle_after_filters[OF ew update_dashboard_store_unfold m1 m3]
  have "fst (update_dashboard_store E df tid c0 cs0 ps0 s0 e0 n tv0 \<sigma>)
      = update_dashboard E (rows_of (\<sigma> ! df)) tid c0 cs0 ps0 s0 e0 n tv0"
    unfolding update_dashboard_unfold by (rule cy(1))
  then show "b = update_dashboard E (rows_of (\<sigma> ! df)) tid c0 cs0 ps0 s0 e0 n tv0"
    unfolding assms by simp
  have "take (length \<sigma>) (snd (update_dashboard_store E df tid c0 cs0 ps0 s0 e0 n tv0 \<sigma>)) = \<sigma>"
    by (rule cy(2))
  then show "take (length \<sigma>) \<sigma>' = \<sigma>" unfolding assms by simp
  have "error_message (fst (update_dashboard_store E df tid c0 cs0 ps0 s0 e0 n tv0 \<sigma>)) = Msg [] \<longrightarrow>
      (\<exists>r. length \<sigma> \<le> r \<and> r < length (snd (update_dashboard_store E df tid c0 cs0 ps0 s0 e0 n tv0 \<sigma>))
         \<and> snd (update_dashboard_store E df tid c0 cs0 ps0 s0 e0 n tv0 \<sigma>) ! r
             = Table (filtered_data (fst (update_dashboard_store E df tid c0 cs0 ps0 s0 e0 n tv0 \<sigma>))))"
    by (rule cy(3))
  then show "error_message b = Msg [] \<longrightarrow>
           (\<exists>r. length \<sigma> \<le> r \<and> r < length \<sigma>' \<and> \<sigma>' ! r = Table (filtered_data b))"
    unfolding assms by simp
qed

lemma render_message:
  assumes "render E t c cs ps sd ed tv = Inr b"
  shows "error_message b = Msg []"
  using assms by (auto simp: render_def split: sum.splits)

text \<open>
  C10. One cycle of the callback on frame objects, \<open>df\<close> referring to the module's
  table: every object that existed before the cycle, the module's table among them, is
  afterwards what it was; the outputs are those of \<open>update_dashboard\<close> on the rows
  of the module's table. When the cycle ends without a message, the rows it retains for
  the download are rows selected from the module's table, at least one, each with its
  own columns as they were and with \<^verbatim>\<open>date\<close> set to the calendar date and \<^verbatim>\<open>hour\<close>
  to the hour of its timestamp; they are the contents of an object made during the
  cycle.
\<close>

theorem cycle_works_on_a_copy:
  assumes "df < length \<sigma>"
    and "update_dashboard_store E df tid c0 cs0 ps0 s0 e0 n tv0 \<sigma> = (b, \<sigma>')"
  shows "take (length \<sigma>) \<sigma>' = \<sigma>
       \<and> \<sigma>' ! df = \<sigma> ! df
       \<and> b = update_dashboard E (rows_of (\<sigma> ! df)) tid c0 cs0 ps0 s0 e0 n tv0
       \<and> (error_message b = Msg [] \<longrightarrow>
            (\<exists>P r. filter P (rows_of (\<sigma> ! df)) \<noteq> []
               \<and> filtered_data b
                   = map (\<lambda>x. x\<lparr>date := Some (ts_date (timestamp x)),
                                  hour := Some (ts_hour (timestamp x))\<rparr>)
                       (filter P (rows_of (\<sigma> ! df)))
               \<and> length \<sigma> \<le> r \<and> r < length \<sigma>' \<and> \<sigma>' ! r = Table (filtered_data b)))"
proof -
  note C = update_dashboard_store_cycle[OF assms(2)]
  have tk: "take (length \<sigma>) \<sigma>' = \<sigma>" by (rule C(2))
  have "take (length \<sigma>) \<sigma>' ! df = \<sigma>' ! df" using assms(1) by (rule nth_take)
  then have same: "\<sigma>' ! df = \<sigma> ! df" unfolding tk by (rule sym)
  have out: "b = update_dashboard E (rows_of (\<sigma> ! df)) tid c0 cs0 ps0 s0 e0 n tv0" by (rule C(1))
  have rows: "error_message b = Msg [] \<longrightarrow>
            (\<exists>P r. filter P (rows_of (\<sigma> ! df)) \<noteq> []
               \<and> filtered_data b
                   = map (\<lambda>x. x\<lparr>date := Some (ts_date (timestamp x)),
                                  hour := Some (ts_hour (timestamp x))\<rparr>)
                       (filter P (rows_of (\<sigma> ! df)))
               \<and> length \<sigma> \<le> r \<and> r < length \<sigma>' \<and> \<sigma>' ! r = Table (filtered_data b))"
  proof
    assume m: "error_message b = Msg []"
    from cycle_success_rows[OF m[unfolded out]] obtain P where
      ne: "filter P (rows_of (\<sigma> ! df)) \<noteq> []"
      and fd: "filtered_data b = set_hour_column (set_date_column (filter P (rows_of (\<sigma> ! df))))"
      unfolding out[symmetric] by (elim exE conjE)
    from mp[OF C(3) m] obtain r where r: "length \<sigma> \<le> r" "r < length \<sigma>'"
      "\<sigma>' ! r = Table (filtered_data b)"
      by (elim exE conjE)
    from ne fd[unfolded derived_columns] r
    show "\<exists>P r. filter P (rows_of (\<sigma> ! df)) \<noteq> []
               \<and> filtered_data b
                   = map (\<lambda>x. x\<lparr>date := Some (ts_date (timestamp x)),
                                  hour := Some (ts_hour (timestamp x))\<rparr>)
                       (filter P (rows_of (\<sigma> ! df)))
               \<and> length \<sigma> \<le> r \<and> r < length \<sigma>' \<and> \<sigma>' ! r = Table (filtered_data b)"
      by (intro exI[of _ P] exI[of _ r] conjI)
  qed
  from tk same out rows show ?thesis by (intro conjI)
qed

theorem cycle_works_on_a_copy_witness:
  "snd (update_dashboard_store example_libs 0 None None (Some []) (Some [])
          (DateObj (2024, 3, 1)) (DateObj (2024, 3, 2)) None (Some ''average'')
          [Table [europe_row, asia_row]]) ! 0
     = Table [europe_row, asia_row]
   \<and> error_message (fst (update_dashboard_store example_libs 0 None None (Some []) (Some [])
          (DateObj (2024, 3, 1)) (DateObj (2024, 3, 2)) None (Some ''average'')
          [Table [europe_row, asia_row]])) = Msg []
   \<and> filtered_data (fst (update_dashboard_store example_libs 0 None None (Some []) (Some [])
          (DateObj (2024, 3, 1)) (DateObj (2024, 3, 2)) None (Some ''average'')
          [Table [europe_row, asia_row]]))
     = [europe_row\<lparr>date := Some (2024, 3, 1), hour := Some 10\<rparr>,
        asia_row\<lparr>date := Some (2024, 3, 2), hour := Some 15\<rparr>]"
proof -
  let ?U = "update_dashboard_store example_libs 0 None None (Some []) (Some [])
          (DateObj (2024, 3, 1)) (DateObj (2024, 3, 2)) None (Some ''average'')
          [Table [europe_row, asia_row]]"
  have d: "(0::nat) < length [Table [europe_row, asia_row]]" by simp
  have U: "?U = (fst ?U, snd ?U)" by simp
  note T = cycle_works_on_a_copy[OF d U]
  from T have same: "snd ?U ! 0 = [Table [europe_row, asia_row]] ! 0"
    by (rule conjunct2[THEN conjunct1])
  from T have out: "fst ?U = update_dashboard example_libs (rows_of ([Table [europe_row, asia_row]] ! 0))
      None None (Some []) (Some []) (DateObj (2024, 3, 1)) (DateObj (2024, 3, 2)) None (Some ''average'')"
    by (rule conjunct2[THEN conjunct2, THEN conjunct1])
  obtain b where b: "render example_libs [europe_row, asia_row] None (Some []) (Some [])
     (DateObj (2024, 3, 1)) (DateObj (2024, 3, 2)) (Some ''average'') = Inr b"
    using example_render_ok by (rule exE)
  have nr: "(None :: string option) \<noteq> Some ''reset-button''" by simp
  have u: "update_dashboard example_libs [europe_row, asia_row] None None
      (Some []) (Some []) (DateObj (2024, 3, 1)) (DateObj (2024, 3, 2)) None (Some ''average'') = b"
    by (simp only: update_dashboard_no_reset[OF nr] example_full_range filter_result.case b sum.case)
  have out': "fst ?U = b" unfolding out using u by simp
  have rows: "filtered_data b = [europe_row\<lparr>date := Some (2024, 3, 1), hour := Some 10\<rparr>,
        asia_row\<lparr>date := Some (2024, 3, 2), hour := Some 15\<rparr>]"
    unfolding render_rows[OF b] by (simp add: set_hour_column_def set_date_column_def)
  from same have s0: "snd ?U ! 0 = Table [europe_row, asia_row]" by simp
  show ?thesis using s0 render_message[OF b] rows unfolding out' by (intro conjI)
qed

end
